theory Spec2Isabelle
  imports Complex_Main "HOL-Library.Multiset" "HOL-Library.Sublist" "HOL-Library.Word"
begin

section \<open>Coverage pipeline: node ingestion, height resolution, orchestration, merge\<close>

text \<open>
  A shallow embedding of \<^verbatim>\<open>src/viewshed.py\<close> and \<^verbatim>\<open>src/merge.py\<close>.
  Python floats are idealised as \<^typ>\<open>real\<close> (no rounding, no infinities); a pandas NaN
  is \<^const>\<open>None\<close> of an option type. Files, the raster library and the external
  \<^verbatim>\<open>gdal_viewshed\<close> tool are fields of an environment record.
\<close>

subsection \<open>Errors and configuration\<close>

datatype error =
    FileNotFoundError
  | ValueError string
  | RuntimeError string
  | RasterioIOError

text \<open>\<^verbatim>\<open>d.get(key, default)\<close>: an absent key is \<^const>\<open>None\<close>.\<close>

definition getd :: "'a option \<Rightarrow> 'a \<Rightarrow> 'a" where
  "getd v dflt = (case v of None \<Rightarrow> dflt | Some x \<Rightarrow> x)"

record validation_cfg =
  drop_invalid_coords :: "bool option"
  drop_zero_coords :: "bool option"
  dedupe_by_id :: "bool option"

record height_strategy =
  mode :: "string option"
  min_height_m :: "real option"
  max_height_m :: "real option"
  local_radius_m :: "real option"
  clearance_margin_m :: "real option"
  use_fresnel :: "bool option"
  fresnel_clearance_ratio :: "real option"
  fresnel_sample_ratio :: "real option"

record viewshed_cfg =
  observer_height_default_m :: "real option"
  max_distance_m :: "real option"
  target_height_m :: "real option"
  curvature_correction :: "bool option"
  refraction_coeff :: "real option"

record config =
  nodes_csv :: string
  validation :: validation_cfg
  hs :: height_strategy
  frequency_mhz :: "real option"
  viewshed :: viewshed_cfg
  dem_path :: string
  dem_prepared_path :: "string option"
  tmp_dir :: string
  workers :: "int option"
  parallel :: "bool option"
  nodes_rejected_csv :: "string option"
  coverage_tif :: string

subsection \<open>Rasters\<close>

record affine =
  tf_a :: real
  tf_b :: real
  tf_c :: real
  tf_d :: real
  tf_e :: real
  tf_f :: real

record grid =
  height :: int
  width :: int
  transform :: affine
  crs :: string

text \<open>
  An opened dataset: band 1 by row and column, and its no-data mask
  (\<^verbatim>\<open>src.read(1)\<close> ignores the mask, \<^verbatim>\<open>src.read(1, masked=True)\<close> applies it).
\<close>

record raster = grid +
  band :: "int \<Rightarrow> int \<Rightarrow> real"
  masked :: "int \<Rightarrow> int \<Rightarrow> bool"

subsection \<open>Node tables\<close>

text \<open>
  A cell of the \<^verbatim>\<open>lat\<close>/\<^verbatim>\<open>lon\<close> columns as read from the file: a number
  (also numeric text, which \<^verbatim>\<open>pd.to_numeric\<close> parses), text that
  \<^verbatim>\<open>pd.to_numeric\<close> cannot parse, or a missing value.
\<close>

datatype cell = Number real | Text string | Missing

record raw_row =
  id_cell :: string
  name_cell :: "string option"
  lat_cell :: cell
  lon_cell :: cell
  extra_cells :: "string \<Rightarrow> real option"

record table =
  columns :: "string list"
  rows :: "raw_row list"

text \<open>A row after lines 119-121: identifier stripped, coordinates coerced (NaN is \<^const>\<open>None\<close>).\<close>

record row =
  row_id :: string
  row_name :: "string option"
  row_lat :: "real option"
  row_lon :: "real option"
  row_extra :: "string \<Rightarrow> real option"

text \<open>A row that survived \<^verbatim>\<open>dropna\<close>: both coordinates are numbers.\<close>

record vrow =
  v_id :: string
  v_name :: "string option"
  v_lat :: real
  v_lon :: real
  v_extra :: "string \<Rightarrow> real option"

record Node =
  node_id :: string
  name :: string
  lat :: real
  lon :: real
  input_height_m :: real
  min_required_height_m :: real
  height_m :: real
  ground_elev_m :: "real option"

record row_stats =
  rows_input :: int
  rows_dropped_nan :: int
  rows_dropped_empty_id :: int
  rows_dropped_invalid_range :: int
  rows_dropped_zero_coords :: int
  rows_dropped_duplicate_id :: int
  rows_valid :: int

record stats = row_stats +
  height_mode :: string
  height_nodes_adapted :: int
  radio_frequency_mhz :: real
  height_fresnel_enabled :: bool
  height_fresnel_margin_m :: real

subsection \<open>The environment\<close>

text \<open>An argument of the command line: text, or a float still to be printed by \<^verbatim>\<open>str\<close>.\<close>

datatype arg = S string | R real

record env =
  nodes_file :: "string \<Rightarrow> table option"
  path_exists :: "string \<Rightarrow> bool"
  open_raster :: "string \<Rightarrow> raster option"
  rio_transform :: "string \<Rightarrow> real \<Rightarrow> real \<Rightarrow> real \<times> real"
  rowcol :: "affine \<Rightarrow> real \<Rightarrow> real \<Rightarrow> int \<times> int"
  which :: "string \<Rightarrow> string option"
  run_ok :: "arg list \<Rightarrow> bool"
  reproject :: "(int \<Rightarrow> int \<Rightarrow> 8 word) \<Rightarrow> grid \<Rightarrow> grid \<Rightarrow> int \<Rightarrow> int \<Rightarrow> 8 word"

subsection \<open>\<^verbatim>\<open>_fresnel_radius_m\<close>\<close>

definition fresnel_radius_m :: "real \<Rightarrow> real \<Rightarrow> real \<Rightarrow> real" where
  "fresnel_radius_m distance_m freq_mhz split_ratio =
     (if distance_m \<le> 0 \<or> freq_mhz \<le> 0 then 0
      else
        let d1_km = (distance_m * split_ratio) / 1000;
            d2_km = (distance_m * (1 - split_ratio)) / 1000;
            d_km = distance_m / 1000;
            f_ghz = freq_mhz / 1000
        in if d1_km \<le> 0 \<or> d2_km \<le> 0 \<or> d_km \<le> 0 \<or> f_ghz \<le> 0 then 0
           else 17.32 * sqrt ((d1_km * d2_km) / (f_ghz * d_km)))"

subsection \<open>\<^verbatim>\<open>_estimate_min_height_from_local_terrain\<close>\<close>

text \<open>The window \<^verbatim>\<open>((r0, r1), (c0, c1))\<close> of the masked band, row by row; a masked cell is \<^const>\<open>None\<close>.\<close>

definition read_masked :: "raster \<Rightarrow> int \<Rightarrow> int \<Rightarrow> int \<Rightarrow> int \<Rightarrow> real option list" where
  "read_masked src r0 r1 c0 c1 =
     concat (map (\<lambda>r. map (\<lambda>c. if masked src r c then None else Some (band src r c)) [c0..c1 - 1])
                 [r0..r1 - 1])"

text \<open>\<^verbatim>\<open>arr.max()\<close> of a masked array: the largest unmasked value, masked when there is none.\<close>

definition masked_max :: "real option list \<Rightarrow> real option" where
  "masked_max arr =
     fold (\<lambda>v acc. case v of None \<Rightarrow> acc
                    | Some x \<Rightarrow> (case acc of None \<Rightarrow> Some x | Some m \<Rightarrow> Some (max m x)))
          arr None"

text \<open>
  When every cell of the window is masked, \<^verbatim>\<open>float(arr.max())\<close> is NaN, so is
  \<^verbatim>\<open>needed\<close>, and Python's \<^verbatim>\<open>max(0.0, nan)\<close> is \<^verbatim>\<open>0.0\<close>.
\<close>

definition estimate_min_height_from_local_terrain ::
  "env \<Rightarrow> raster \<Rightarrow> real \<Rightarrow> real \<Rightarrow> real \<Rightarrow> real \<Rightarrow> real \<Rightarrow> real" where
  "estimate_min_height_from_local_terrain e src ox oy ground_elev radius margin =
     (let (row, col) = rowcol e (transform src) ox oy;
          pixel_x = \<bar>tf_a (transform src)\<bar>;
          pixel_y = \<bar>tf_e (transform src)\<bar>;
          pixel_size_m = max (min pixel_x pixel_y) (1 / 1000000);
          px_radius = max \<lceil>radius / pixel_size_m\<rceil> 1;
          r0 = max (row - px_radius) 0;
          r1 = min (row + px_radius + 1) (height src);
          c0 = max (col - px_radius) 0;
          c1 = min (col + px_radius + 1) (width src)
      in if r0 \<ge> r1 \<or> c0 \<ge> c1 then 0
         else
           let arr = read_masked src r0 r1 c0 c1
           in if length arr = 0 then 0
              else (case masked_max arr of
                      None \<Rightarrow> 0
                    | Some local_max \<Rightarrow> max 0 (local_max - ground_elev + margin)))"

text \<open>
  Auxiliary: the terrain floor as a function of the pixel radius, with the window bounds
  of lines 92-95.
\<close>

definition floor_of_window :: "raster \<Rightarrow> int \<Rightarrow> int \<Rightarrow> int \<Rightarrow> real \<Rightarrow> real \<Rightarrow> real" where
  "floor_of_window src row col px g margin =
     (let r0 = max (row - px) 0; r1 = min (row + px + 1) (height src);
          c0 = max (col - px) 0; c1 = min (col + px + 1) (width src)
      in if r0 \<ge> r1 \<or> c0 \<ge> c1 then 0
         else case masked_max (read_masked src r0 r1 c0 c1) of
                None \<Rightarrow> 0 | Some local_max \<Rightarrow> max 0 (local_max - g + margin))"

subsection \<open>\<^verbatim>\<open>_load_nodes\<close>: validation (lines 114-149)\<close>

text \<open>
  A \<^typ>\<open>char\<close> is read as a code point below 256. These are the code points below 256
  that \<^verbatim>\<open>str.isspace\<close> accepts, so that \<^verbatim>\<open>str.strip()\<close> removes them: the
  ASCII ones, U+0085 and U+00A0. Identifiers with code points from 256 on are outside the
  model.
\<close>

definition is_space :: "char \<Rightarrow> bool" where
  "is_space ch = (ch \<in> set [CHR 0x09, CHR 0x0A, CHR 0x0B, CHR 0x0C, CHR 0x0D,
                            CHR 0x1C, CHR 0x1D, CHR 0x1E, CHR 0x1F, CHR 0x20,
                            CHR 0x85, CHR 0xA0])"

definition strip :: "string \<Rightarrow> string" where
  "strip s = rev (dropWhile is_space (rev (dropWhile is_space s)))"

text \<open>\<^verbatim>\<open>pd.to_numeric(..., errors="coerce")\<close>.\<close>

fun to_numeric :: "cell \<Rightarrow> real option" where
  "to_numeric (Number x) = Some x"
| "to_numeric (Text s) = None"
| "to_numeric Missing = None"

definition normalise :: "raw_row \<Rightarrow> row" where
  "normalise r =
     \<lparr>row_id = strip (id_cell r), row_name = name_cell r,
      row_lat = to_numeric (lat_cell r), row_lon = to_numeric (lon_cell r),
      row_extra = extra_cells r\<rparr>"

text \<open>A data frame keeps the index of every row of the file through all filters.\<close>

definition frame_of :: "table \<Rightarrow> (nat \<times> row) list" where
  "frame_of t = enumerate 0 (map normalise (rows t))"

definition isna_any :: "row \<Rightarrow> bool" where
  "isna_any r = (row_lat r = None \<or> row_lon r = None)"

fun dropna_row :: "nat \<times> row \<Rightarrow> (nat \<times> vrow) option" where
  "dropna_row (i, r) =
     (case (row_lat r, row_lon r) of
        (Some la, Some lo) \<Rightarrow>
          Some (i, \<lparr>v_id = row_id r, v_name = row_name r, v_lat = la, v_lon = lo,
                    v_extra = row_extra r\<rparr>)
      | _ \<Rightarrow> None)"

definition invalid_coord :: "vrow \<Rightarrow> bool" where
  "invalid_coord r = (v_lat r < - 90 \<or> v_lat r > 90 \<or> v_lon r < - 180 \<or> v_lon r > 180)"

definition zero_coord :: "vrow \<Rightarrow> bool" where
  "zero_coord r = (v_lat r = 0 \<and> v_lon r = 0)"

text \<open>\<^verbatim>\<open>drop_duplicates(subset=["id"], keep="first")\<close>: a row goes when its id was seen before.\<close>

fun drop_duplicates_from :: "string list \<Rightarrow> (nat \<times> vrow) list \<Rightarrow> (nat \<times> vrow) list" where
  "drop_duplicates_from seen [] = []"
| "drop_duplicates_from seen (x # xs) =
     (if v_id (snd x) \<in> set seen then drop_duplicates_from seen xs
      else x # drop_duplicates_from (v_id (snd x) # seen) xs)"

definition drop_duplicates :: "(nat \<times> vrow) list \<Rightarrow> (nat \<times> vrow) list" where
  "drop_duplicates df = drop_duplicates_from [] df"

definition validate :: "validation_cfg \<Rightarrow> table \<Rightarrow> (nat \<times> vrow) list \<times> row_stats" where
  "validate v t =
     (let df0 = frame_of t;
          n_input = int (length df0);
          rows_nan = int (length (filter (\<lambda>x. isna_any (snd x)) df0));
          df1 = List.map_filter dropna_row df0;
          rows_empty_id = int (length (filter (\<lambda>x. v_id (snd x) = []) df1));
          df2 = filter (\<lambda>x. v_id (snd x) \<noteq> []) df1;
          rows_invalid_range = int (length (filter (\<lambda>x. invalid_coord (snd x)) df2));
          df3 = (if getd (drop_invalid_coords v) True
                 then filter (\<lambda>x. \<not> invalid_coord (snd x)) df2 else df2);
          rows_zero_coords = int (length (filter (\<lambda>x. zero_coord (snd x)) df3));
          df4 = (if getd (drop_zero_coords v) True
                 then filter (\<lambda>x. \<not> zero_coord (snd x)) df3 else df3);
          rows_before_dedup = int (length df4);
          df5 = (if getd (dedupe_by_id v) True then drop_duplicates df4 else df4);
          rows_deduped = rows_before_dedup - int (length df5)
      in (df5,
          \<lparr>rows_input = n_input, rows_dropped_nan = rows_nan,
           rows_dropped_empty_id = rows_empty_id,
           rows_dropped_invalid_range = rows_invalid_range,
           rows_dropped_zero_coords = rows_zero_coords,
           rows_dropped_duplicate_id = rows_deduped,
           rows_valid = int (length df5)\<rparr>))"

text \<open>Auxiliary: the frame after \<^verbatim>\<open>dropna\<close> (line 123).\<close>

definition candidates :: "table \<Rightarrow> (nat \<times> vrow) list" where
  "candidates t = List.map_filter dropna_row (frame_of t)"

subsection \<open>\<^verbatim>\<open>_load_nodes\<close>: the rejected-records file (lines 151-161)\<close>

definition rejected_rows :: "table \<Rightarrow> (nat \<times> vrow) list \<Rightarrow> (nat \<times> row) list" where
  "rejected_rows t df =
     (let rejected = frame_of t;
          keep_ids = set (map (\<lambda>x. v_id (snd x)) df)
      in filter (\<lambda>x. row_id (snd x) \<notin> keep_ids) rejected)"

subsection \<open>\<^verbatim>\<open>_load_nodes\<close>: height resolution (lines 163-239)\<close>

definition height_column :: "string list \<Rightarrow> string option" where
  "height_column cols =
     find (\<lambda>c. c \<in> set cols) [''height_m'', ''height'', ''antenna_height_m'', ''observer_height_m'']"

text \<open>Lines 212-215: the Fresnel margin of one loop iteration.\<close>

definition fresnel_margin_of :: "config \<Rightarrow> real" where
  "fresnel_margin_of cfg =
     (if getd (use_fresnel (hs cfg)) True
      then max 0 (fresnel_radius_m (getd (max_distance_m (viewshed cfg)) 20000)
                                   (getd (frequency_mhz cfg) 868)
                                   (getd (fresnel_sample_ratio (hs cfg)) (1 / 2))
                  * getd (fresnel_clearance_ratio (hs cfg)) (6 / 10))
      else 0)"

text \<open>Lines 217-219.\<close>

definition used_height :: "real \<Rightarrow> real \<Rightarrow> real \<Rightarrow> real \<Rightarrow> real \<Rightarrow> real" where
  "used_height raw_h min_h max_h min_required_h fresnel_margin =
     (let used_h = max (max raw_h min_h) min_required_h;
          used_h = max used_h (min_required_h + fresnel_margin);
          used_h = min used_h max_h
      in used_h)"

text \<open>One iteration of the loop over the validated rows: the node and its Fresnel margin.\<close>

definition resolve_node :: "env \<Rightarrow> config \<Rightarrow> raster \<Rightarrow> string list \<Rightarrow> vrow \<Rightarrow> Node \<times> real" where
  "resolve_node e cfg src cols r =
     (let default_h = getd (observer_height_default_m (viewshed cfg)) 6;
          raw_h = (case height_column cols of
                     None \<Rightarrow> default_h
                   | Some c \<Rightarrow> (case v_extra r c of None \<Rightarrow> default_h | Some h \<Rightarrow> h));
          (ox, oy) = rio_transform e (crs src) (v_lon r) (v_lat r);
          (row, col) = rowcol e (transform src) ox oy;
          inside = (0 \<le> row \<and> row < height src \<and> 0 \<le> col \<and> col < width src);
          ground_elev = (if inside then Some (band src row col) else None);
          min_required_h =
            (if inside \<and> getd (mode (hs cfg)) ''adaptive_min'' = ''adaptive_min''
             then estimate_min_height_from_local_terrain e src ox oy (band src row col)
                    (getd (local_radius_m (hs cfg)) 300) (getd (clearance_margin_m (hs cfg)) 2)
             else 0);
          fresnel_margin = fresnel_margin_of cfg;
          used_h = used_height raw_h (getd (min_height_m (hs cfg)) 4)
                     (getd (max_height_m (hs cfg)) 120) min_required_h fresnel_margin;
          node_name = (case (''name'' \<in> set cols, v_name r) of
                         (True, Some n) \<Rightarrow> strip n
                       | _ \<Rightarrow> v_id r)
      in (\<lparr>node_id = v_id r, name = node_name, lat = v_lat r, lon = v_lon r,
           input_height_m = raw_h, min_required_height_m = min_required_h,
           height_m = used_h, ground_elev_m = ground_elev\<rparr>,
          fresnel_margin))"

record load_result =
  lr_nodes :: "Node list"
  lr_stats :: stats
  lr_rejected :: "(string \<times> (nat \<times> row) list) option"
  lr_fresnel_margin_vals :: "real list"

definition load_nodes :: "env \<Rightarrow> config \<Rightarrow> string \<Rightarrow> error + load_result" where
  "load_nodes e cfg dem =
     (case nodes_file e (nodes_csv cfg) of
        None \<Rightarrow> Inl FileNotFoundError
      | Some t \<Rightarrow>
          if \<not> {''id'', ''lat'', ''lon''} \<subseteq> set (columns t) then Inl (ValueError ''Missing node columns'')
          else
            let (df, rs) = validate (validation cfg) t;
                rej = (case nodes_rejected_csv cfg of
                         None \<Rightarrow> None
                       | Some out \<Rightarrow> if out = [] then None else Some (out, rejected_rows t df))
            in (case open_raster e dem of
                  None \<Rightarrow> Inl RasterioIOError
                | Some src \<Rightarrow>
                    let resolved = map (\<lambda>x. resolve_node e cfg src (columns t) (snd x)) df;
                        ns = map fst resolved;
                        fresnel_margin_vals = map snd resolved;
                        adapted_count =
                          int (length (filter (\<lambda>n. height_m n > input_height_m n + 1 / 1000000000) ns))
                    in Inr \<lparr>lr_nodes = ns,
                            lr_stats = row_stats.extend rs
                              (stats.fields
                                 (getd (mode (hs cfg)) ''adaptive_min'')
                                 adapted_count
                                 (getd (frequency_mhz cfg) 868)
                                 (getd (use_fresnel (hs cfg)) True)
                                 (case fresnel_margin_vals of [] \<Rightarrow> 0 | m # _ \<Rightarrow> m)),
                            lr_rejected = rej,
                            lr_fresnel_margin_vals = fresnel_margin_vals\<rparr>))"

subsection \<open>\<^verbatim>\<open>merge_binary_rasters\<close>\<close>

definition grid_of :: "raster \<Rightarrow> grid" where
  "grid_of src = \<lparr>height = height src, width = width src, transform = transform src, crs = crs src\<rparr>"

text \<open>\<^verbatim>\<open>(src_arr > 0).astype(np.uint8)\<close>.\<close>

definition binarise :: "raster \<Rightarrow> int \<Rightarrow> int \<Rightarrow> 8 word" where
  "binarise src r c = (if band src r c > 0 then 1 else 0)"

text \<open>
  The destination array of \<^verbatim>\<open>reproject\<close>: it has the accumulator's shape, and the library
  decides the value of each of its cells.
\<close>

definition dst_arr :: "env \<Rightarrow> raster \<Rightarrow> grid \<Rightarrow> 8 word list list" where
  "dst_arr e src g =
     map (\<lambda>r. map (\<lambda>c. reproject e (binarise src) (grid_of src) g r c) [0..width g - 1])
         [0..height g - 1]"

text \<open>\<^verbatim>\<open>acc += dst_arr.astype(np.uint32)\<close>: the addition of 32-bit cells wraps.\<close>

definition add_arr :: "32 word list list \<Rightarrow> 8 word list list \<Rightarrow> 32 word list list" where
  "add_arr acc d = map2 (map2 (\<lambda>x y. x + ucast y)) acc d"

fun merge_loop :: "env \<Rightarrow> grid \<Rightarrow> 32 word list list \<Rightarrow> string list \<Rightarrow> error + 32 word list list" where
  "merge_loop e g acc [] = Inr acc"
| "merge_loop e g acc (p # ps) =
     (case open_raster e p of
        None \<Rightarrow> Inl RasterioIOError
      | Some src \<Rightarrow> merge_loop e g (add_arr acc (dst_arr e src g)) ps)"

record merge_result =
  written_to :: string
  out_grid :: grid
  out_cells :: "32 word list list"
  max_count :: int
  cell_sum :: int

text \<open>
  \<^verbatim>\<open>acc.max()\<close> raises on an array without cells; \<^verbatim>\<open>acc.sum()\<close> of 32-bit
  cells accumulates in 64 bits.
\<close>

definition merge_binary_rasters ::
  "env \<Rightarrow> string list \<Rightarrow> string \<Rightarrow> string option \<Rightarrow> error + merge_result" where
  "merge_binary_rasters e raster_paths out_path template_path =
     (case raster_paths of
        [] \<Rightarrow> Inl (ValueError ''No viewshed rasters provided for merge'')
      | first # _ \<Rightarrow>
          let base = (case template_path of
                        None \<Rightarrow> first
                      | Some t \<Rightarrow> if t = [] then first else t)
          in (case open_raster e base of
                None \<Rightarrow> Inl RasterioIOError
              | Some src0 \<Rightarrow>
                  let g = grid_of src0;
                      acc0 = replicate (nat (height src0)) (replicate (nat (width src0)) 0)
                  in (case merge_loop e g acc0 raster_paths of
                        Inl err \<Rightarrow> Inl err
                      | Inr acc \<Rightarrow>
                          (case concat acc of
                             [] \<Rightarrow> Inl (ValueError ''zero-size array'')
                           | x # xs \<Rightarrow>
                               Inr \<lparr>written_to = out_path, out_grid = g, out_cells = acc,
                                    max_count = int (unat (fold max xs x)),
                                    cell_sum = int (sum_list (map unat (x # xs)) mod 2 ^ 64)\<rparr>))))"


subsection \<open>\<^verbatim>\<open>_compute_one\<close>\<close>

definition compute_one :: "env \<Rightarrow> config \<Rightarrow> Node \<Rightarrow> string \<Rightarrow> error + string" where
  "compute_one e cfg node dem =
     (let out_path = tmp_dir cfg @ ''/'' @ ''viewshed_'' @ node_id node @ ''.tif''
      in case open_raster e dem of
           None \<Rightarrow> Inl RasterioIOError
         | Some src \<Rightarrow>
             let (ox, oy) = rio_transform e (crs src) (lon node) (lat node);
                 (row, col) = rowcol e (transform src) ox oy
             in if row < 0 \<or> col < 0 \<or> row \<ge> height src \<or> col \<ge> width src then Inr []
                else
                  (case which e ''gdal_viewshed'' of
                     None \<Rightarrow> Inl (RuntimeError ''gdal_viewshed not found in PATH'')
                   | Some gdal_viewshed \<Rightarrow>
                       if gdal_viewshed = [] then Inl (RuntimeError ''gdal_viewshed not found in PATH'')
                       else
                         let vcfg = viewshed cfg;
                             cmd = [S gdal_viewshed, S ''-b'', S ''1'', S ''-ox'', R ox, S ''-oy'', R oy,
                                    S ''-oz'', R (height_m node),
                                    S ''-tz'', R (getd (target_height_m vcfg) 0),
                                    S ''-md'', R (getd (max_distance_m vcfg) 20000),
                                    S ''-vv'', S ''1'', S ''-iv'', S ''0'', S ''-ov'', S ''0''];
                             cmd = (if getd (curvature_correction vcfg) True
                                    then cmd @ [S ''-cc'', R (getd (refraction_coeff vcfg) (13 / 100))]
                                    else cmd);
                             cmd = cmd @ [S dem, S out_path]
                         in if run_ok e cmd then Inr out_path
                            else Inl (RuntimeError ''Command failed'')))"

subsection \<open>\<^verbatim>\<open>compute_coverage\<close>\<close>

text \<open>
  The list comprehension of line 363 runs the jobs in order and stops at the first that
  raises. The first component is the list of jobs that were started.
\<close>

fun run_jobs :: "('a \<Rightarrow> error + 'b) \<Rightarrow> 'a list \<Rightarrow> 'a list \<times> (error + 'b list)" where
  "run_jobs f [] = ([], Inr [])"
| "run_jobs f (j # js) =
     (case f j of
        Inl err \<Rightarrow> ([j], Inl err)
      | Inr r \<Rightarrow>
          (case run_jobs f js of
             (started, Inl err) \<Rightarrow> (j # started, Inl err)
           | (started, Inr rs) \<Rightarrow> (j # started, Inr (r # rs))))"

text \<open>
  \<^verbatim>\<open>pool.map\<close> of line 361 hands every job to the pool and waits for all of them; the
  results come back in the order of the jobs. When several jobs raise, the model reports
  the error of the first of them in that order.
\<close>

definition pool_map :: "('a \<Rightarrow> error + 'b) \<Rightarrow> 'a list \<Rightarrow> 'a list \<times> (error + 'b list)" where
  "pool_map f js = (js, snd (run_jobs f js))"

record report =
  nodes :: int
  nodes_skipped_outside_dem :: int
  node_input_stats :: stats
  viewshed_rasters :: int
  merged :: merge_result

text \<open>
  The first component of the result is the list of nodes whose visibility job was
  started, empty when the run stops before line 357.
\<close>

definition compute_coverage :: "env \<Rightarrow> config \<Rightarrow> Node list \<times> (error + report)" where
  "compute_coverage e cfg =
     (let dem = getd (dem_prepared_path cfg) (dem_path cfg);
          dem = (if \<not> path_exists e dem then dem_path cfg else dem)
      in case load_nodes e cfg dem of
           Inl err \<Rightarrow> ([], Inl err)
         | Inr loaded \<Rightarrow>
             if lr_nodes loaded = [] then ([], Inl (ValueError ''No nodes found in CSV''))
             else
               let worker_count = getd (workers cfg) 4;
                   jobs = lr_nodes loaded;
                   (started, res) =
                     (if getd (parallel cfg) True \<and> worker_count > 1
                      then pool_map (\<lambda>n. compute_one e cfg n dem) jobs
                      else run_jobs (\<lambda>n. compute_one e cfg n dem) jobs)
               in (case res of
                     Inl err \<Rightarrow> (started, Inl err)
                   | Inr all_rasters \<Rightarrow>
                       let rasters = filter (\<lambda>r. r \<noteq> []) all_rasters
                       in if rasters = []
                          then (started, Inl (ValueError ''No viewshed rasters generated''))
                          else
                            (case merge_binary_rasters e rasters (coverage_tif cfg) (Some dem) of
                               Inl err \<Rightarrow> (started, Inl err)
                             | Inr m \<Rightarrow>
                                 (started,
                                  Inr \<lparr>nodes = int (length (lr_nodes loaded)),
                                       nodes_skipped_outside_dem =
                                         int (length (lr_nodes loaded)) - int (length rasters),
                                       node_input_stats = lr_stats loaded,
                                       viewshed_rasters = int (length rasters),
                                       merged = m\<rparr>))))"

subsection \<open>The final height as the specification states it\<close>

text \<open>
  \<^verbatim>\<open>clamp(x, lo, hi)\<close> is read as numpy's \<^verbatim>\<open>clip\<close>:
  \<^verbatim>\<open>minimum(maximum(x, lo), hi)\<close>.
\<close>

definition spec_clamp :: "real \<Rightarrow> real \<Rightarrow> real \<Rightarrow> real" where
  "spec_clamp x lo hi = min (max x lo) hi"

definition spec_final_height :: "real \<Rightarrow> real \<Rightarrow> real \<Rightarrow> real \<Rightarrow> real \<Rightarrow> real" where
  "spec_final_height input_height min_height_global max_height_global terrain_floor fresnel_floor =
     spec_clamp (max (max (max input_height min_height_global) terrain_floor)
                     (terrain_floor + fresnel_floor))
                min_height_global max_height_global"

subsection \<open>A small run\<close>

text \<open>
  The node table of the scenario of the specification, a flat 3 by 3 terrain raster around
  (50 N, 14 E) with cells of one degree, and a configuration that leaves every key at its
  default except the frequency and the maximal distance.
\<close>

definition ex_row :: "string \<Rightarrow> real \<Rightarrow> real \<Rightarrow> real \<Rightarrow> raw_row" where
  "ex_row i la lo h =
     \<lparr>id_cell = i, name_cell = None, lat_cell = Number la, lon_cell = Number lo,
      extra_cells = (\<lambda>c. if c = ''height_m'' then Some h else None)\<rparr>"

definition ex_table :: table where
  "ex_table = \<lparr>columns = [''id'', ''lat'', ''lon'', ''height_m''],
               rows = [ex_row ''A'' 50 14 10, ex_row ''B'' 0 0 5, ex_row ''A'' 50 14 10]\<rparr>"

definition ex_dem :: raster where
  "ex_dem = \<lparr>height = 3, width = 3,
             transform = \<lparr>tf_a = 1, tf_b = 0, tf_c = 13, tf_d = 0, tf_e = - 1, tf_f = 52\<rparr>,
             crs = ''EPSG:4326'', band = (\<lambda>r c. 0), masked = (\<lambda>r c. False)\<rparr>"

definition ex_env :: env where
  "ex_env = \<lparr>nodes_file = (\<lambda>p. if p = ''nodes.csv'' then Some ex_table else None),
             path_exists = (\<lambda>p. p = ''dem.tif''),
             open_raster = (\<lambda>p. if p = ''dem.tif'' then Some ex_dem else None),
             rio_transform = (\<lambda>dst x y. (x, y)),
             rowcol = (\<lambda>t x y. (\<lfloor>(y - tf_f t) / tf_e t\<rfloor>, \<lfloor>(x - tf_c t) / tf_a t\<rfloor>)),
             which = (\<lambda>p. None),
             run_ok = (\<lambda>cmd. True),
             reproject = (\<lambda>src sg dg r c. if 0 \<le> r \<and> r < height sg \<and> 0 \<le> c \<and> c < width sg then src r c else 0)\<rparr>"

definition ex_cfg :: config where
  "ex_cfg = \<lparr>nodes_csv = ''nodes.csv'',
             validation = \<lparr>drop_invalid_coords = None, drop_zero_coords = None, dedupe_by_id = None\<rparr>,
             hs = \<lparr>mode = None, min_height_m = None, max_height_m = None, local_radius_m = None,
                   clearance_margin_m = None, use_fresnel = None, fresnel_clearance_ratio = None,
                   fresnel_sample_ratio = None\<rparr>,
             frequency_mhz = Some 1000,
             viewshed = \<lparr>observer_height_default_m = None, max_distance_m = Some 4000,
                         target_height_m = None, curvature_correction = None, refraction_coeff = None\<rparr>,
             dem_path = ''dem.tif'', dem_prepared_path = None, tmp_dir = ''tmp'',
             workers = None, parallel = None, nodes_rejected_csv = Some ''rejected.csv'',
             coverage_tif = ''coverage.tif''\<rparr>"

definition ex_vrow :: vrow where
  "ex_vrow = \<lparr>v_id = ''A'', v_name = None, v_lat = 50, v_lon = 14,
           v_extra = (\<lambda>c. if c = ''height_m'' then Some 10 else None)\<rparr>"

definition ex_loaded :: load_result where
  "ex_loaded = projr (load_nodes ex_env ex_cfg ''dem.tif'')"

definition ex_cfg_keep_zero :: config where
  "ex_cfg_keep_zero =
     ex_cfg\<lparr>validation := \<lparr>drop_invalid_coords = None, drop_zero_coords = Some False,
                            dedupe_by_id = None\<rparr>\<rparr>"

definition ex_loaded_keep_zero :: load_result where
  "ex_loaded_keep_zero = projr (load_nodes ex_env ex_cfg_keep_zero ''dem.tif'')"

definition ex_vrow_B :: vrow where
  "ex_vrow_B = \<lparr>v_id = ''B'', v_name = None, v_lat = 0, v_lon = 0,
           v_extra = (\<lambda>c. if c = ''height_m'' then Some 5 else None)\<rparr>"

definition ex_cfg_min_above_max :: config where
  "ex_cfg_min_above_max = ex_cfg\<lparr>hs := (hs ex_cfg)\<lparr>min_height_m := Some 200\<rparr>\<rparr>"

definition ex_loaded_min_above_max :: load_result where
  "ex_loaded_min_above_max = projr (load_nodes ex_env ex_cfg_min_above_max ''dem.tif'')"

definition ex_cfg_raised :: config where
  "ex_cfg_raised =
     ex_cfg\<lparr>hs := (hs ex_cfg)\<lparr>local_radius_m := Some 400, clearance_margin_m := Some 3,
                                   fresnel_clearance_ratio := Some 1\<rparr>\<rparr>"

definition ex_loaded_raised :: load_result where
  "ex_loaded_raised = projr (load_nodes ex_env ex_cfg_raised ''dem.tif'')"




definition ex_cfg_min_above_max_raised :: config where
  "ex_cfg_min_above_max_raised =
     ex_cfg_min_above_max\<lparr>hs := (hs ex_cfg_min_above_max)\<lparr>local_radius_m := Some 400,
        clearance_margin_m := Some 3, fresnel_clearance_ratio := Some 1\<rparr>\<rparr>"

definition ex_loaded_min_above_max_raised :: load_result where
  "ex_loaded_min_above_max_raised =
     projr (load_nodes ex_env ex_cfg_min_above_max_raised ''dem.tif'')"

section \<open>Properties\<close>

subsection \<open>The Fresnel radius\<close>

lemma fresnel_degenerate: "d \<le> 0 \<or> f \<le> 0 \<Longrightarrow> fresnel_radius_m d f s = 0"
  by (auto simp: fresnel_radius_m_def)

lemma fresnel_closed:
  assumes "0 < d" "0 < f" "0 < s" "s < 1"
  shows "fresnel_radius_m d f s = 17.32 * sqrt (d * (s * (1 - s)) / f)"
proof -
  have a: "\<not> (d * s / 1000 \<le> 0)" "\<not> (d * (1 - s) / 1000 \<le> 0)" "\<not> (d / 1000 \<le> 0)" "\<not> (f / 1000 \<le> 0)"
    using assms by (simp_all add: not_le)
  have "(d * s / 1000 * (d * (1 - s) / 1000)) / (f / 1000 * (d / 1000)) = d * (s * (1 - s)) / f"
    using assms by (simp add: field_simps)
  then show ?thesis
    using assms a by (simp add: fresnel_radius_m_def Let_def)
qed

lemma fresnel_outside:
  assumes "s \<le> 0 \<or> 1 \<le> s"
  shows "fresnel_radius_m d f s = 0"
proof (cases "d \<le> 0 \<or> f \<le> 0")
  case True then show ?thesis by (simp add: fresnel_degenerate)
next
  case False
  then have d: "0 < d" by simp
  have "d * s \<le> 0 \<or> d * (1 - s) \<le> 0"
    using assms d by (auto simp: mult_le_0_iff)
  then show ?thesis by (auto simp: fresnel_radius_m_def Let_def)
qed

lemma fresnel_pos: "0 < d \<Longrightarrow> 0 < f \<Longrightarrow> 0 < s \<Longrightarrow> s < 1 \<Longrightarrow> 0 < fresnel_radius_m d f s"
  by (simp add: fresnel_closed)

lemma fresnel_nonneg: "0 \<le> fresnel_radius_m d f s"
proof -
  consider "d \<le> 0 \<or> f \<le> 0" | "s \<le> 0 \<or> 1 \<le> s" | "0 < d" "0 < f" "0 < s" "s < 1" by linarith
  then show ?thesis
    by cases (simp_all add: fresnel_degenerate fresnel_outside fresnel_closed)
qed

lemma fresnel_scale_d:
  assumes k: "0 < k"
  shows "fresnel_radius_m (k * d) f s = sqrt k * fresnel_radius_m d f s"
proof -
  consider "d \<le> 0 \<or> f \<le> 0" | "s \<le> 0 \<or> 1 \<le> s" | "0 < d" "0 < f" "0 < s" "s < 1" by linarith
  then show ?thesis
  proof cases
    case 1 then have "k * d \<le> 0 \<or> f \<le> 0" using k by (auto simp: mult_le_0_iff)
    then show ?thesis using 1 by (simp add: fresnel_degenerate)
  next
    case 2 then show ?thesis by (simp add: fresnel_outside)
  next
    case 3
    have "0 < k * d" using k 3 by simp
    then have "fresnel_radius_m (k * d) f s = 17.32 * sqrt (k * d * (s * (1 - s)) / f)"
      using 3 by (simp add: fresnel_closed)
    also have "k * d * (s * (1 - s)) / f = k * (d * (s * (1 - s)) / f)" by simp
    also have "sqrt \<dots> = sqrt k * sqrt (d * (s * (1 - s)) / f)" by (rule real_sqrt_mult)
    finally show ?thesis using 3 by (simp add: fresnel_closed)
  qed
qed

lemma fresnel_scale_f:
  assumes k: "0 < k"
  shows "fresnel_radius_m d (k * f) s = fresnel_radius_m d f s / sqrt k"
proof -
  consider "d \<le> 0 \<or> f \<le> 0" | "s \<le> 0 \<or> 1 \<le> s" | "0 < d" "0 < f" "0 < s" "s < 1" by linarith
  then show ?thesis
  proof cases
    case 1 then have "d \<le> 0 \<or> k * f \<le> 0" using k by (auto simp: mult_le_0_iff)
    then show ?thesis using 1 by (simp add: fresnel_degenerate)
  next
    case 2 then show ?thesis by (simp add: fresnel_outside)
  next
    case 3
    have "0 < k * f" using k 3 by simp
    then have "fresnel_radius_m d (k * f) s = 17.32 * sqrt (d * (s * (1 - s)) / (k * f))"
      using 3 by (simp add: fresnel_closed)
    also have "d * (s * (1 - s)) / (k * f) = (d * (s * (1 - s)) / f) / k" by simp
    also have "sqrt \<dots> = sqrt (d * (s * (1 - s)) / f) / sqrt k" by (rule real_sqrt_divide)
    finally show ?thesis using 3 by (simp add: fresnel_closed)
  qed
qed

text \<open>
  Claim C5. The radius is 0 when the distance or the frequency is not positive. For a
  positive distance and frequency, and a split ratio in the domain the specification gives
  it (strictly between 0 and 1), the radius is strictly positive. With the split ratio
  fixed, it scales as the square root of the distance and as the inverse square root of
  the frequency.
\<close>

theorem fresnel_radius_law:
  "(d \<le> 0 \<or> f \<le> 0 \<longrightarrow> fresnel_radius_m d f s = 0) \<and>
   (0 < d \<and> 0 < f \<and> 0 < s \<and> s < 1 \<longrightarrow> 0 < fresnel_radius_m d f s) \<and>
   (0 < k \<longrightarrow> fresnel_radius_m (k * d) f s = sqrt k * fresnel_radius_m d f s \<and>
              fresnel_radius_m d (k * f) s = fresnel_radius_m d f s / sqrt k)"
  using fresnel_degenerate [of d f s] fresnel_pos [of d f s]
    fresnel_scale_d [of k d f s] fresnel_scale_f [of k d f s]
  by blast

theorem fresnel_radius_law_witness:
  "fresnel_radius_m 0 868 (1 / 2) = 0 \<and>
   0 < fresnel_radius_m 10000 868 (1 / 2) \<and>
   fresnel_radius_m (4 * 10000) 868 (1 / 2) = sqrt 4 * fresnel_radius_m 10000 868 (1 / 2) \<and>
   fresnel_radius_m 10000 (4 * 868) (1 / 2) = fresnel_radius_m 10000 868 (1 / 2) / sqrt 4"
  using fresnel_radius_law [of 0 868 "1 / 2" 4] fresnel_radius_law [of 10000 868 "1 / 2" 4]
  by simp

subsection \<open>The terrain floor\<close>

lemma fold_mm_None:
  "fold (\<lambda>v acc. case v of None \<Rightarrow> acc
                    | Some x \<Rightarrow> (case acc of None \<Rightarrow> Some x | Some m \<Rightarrow> Some (max m x))) arr a = None
   \<longleftrightarrow> a = None \<and> set arr \<subseteq> {None}"
  by (induction arr arbitrary: a) (auto split: option.splits)

lemma fold_mm_Some:
  "fold (\<lambda>v acc. case v of None \<Rightarrow> acc
                    | Some x \<Rightarrow> (case acc of None \<Rightarrow> Some x | Some m \<Rightarrow> Some (max m x))) arr a = Some (m::real)
   \<Longrightarrow> (Some m \<in> set arr \<or> a = Some m) \<and> (\<forall>x. Some x \<in> set arr \<or> a = Some x \<longrightarrow> x \<le> m)"
proof (induction arr arbitrary: a)
  case Nil
  then show ?case by simp
next
  case (Cons v arr)
  show ?case
  proof (cases v)
    case None
    with Cons.prems have "fold (\<lambda>v acc. case v of None \<Rightarrow> acc
                    | Some x \<Rightarrow> (case acc of None \<Rightarrow> Some x | Some m \<Rightarrow> Some (max m x))) arr a = Some m"
      by simp
    from Cons.IH[OF this] None show ?thesis by auto
  next
    case (Some y)
    show ?thesis
    proof (cases a)
      case None
      with Some Cons.prems have "fold (\<lambda>v acc. case v of None \<Rightarrow> acc
                    | Some x \<Rightarrow> (case acc of None \<Rightarrow> Some x | Some m \<Rightarrow> Some (max m x))) arr (Some y) = Some m"
        by simp
      from Cons.IH[OF this] Some None show ?thesis by auto
    next
      case (Some z)
      with \<open>v = Some y\<close> Cons.prems have "fold (\<lambda>v acc. case v of None \<Rightarrow> acc
                    | Some x \<Rightarrow> (case acc of None \<Rightarrow> Some x | Some m \<Rightarrow> Some (max m x))) arr (Some (max z y)) = Some m"
        by simp
      from Cons.IH[OF this] Some \<open>v = Some y\<close> show ?thesis
        by (auto simp: max_def split: if_splits)
    qed
  qed
qed

lemma masked_max_None: "masked_max arr = None \<longleftrightarrow> set arr \<subseteq> {None}"
  by (simp add: masked_max_def fold_mm_None)

lemma masked_max_Some:
  "masked_max arr = Some m \<Longrightarrow> Some m \<in> set arr \<and> (\<forall>x. Some x \<in> set arr \<longrightarrow> x \<le> m)"
  unfolding masked_max_def by (drule fold_mm_Some) auto

lemma masked_max_mono:
  assumes "set arr \<subseteq> set arr'" "masked_max arr = Some m"
  shows "\<exists>m'. masked_max arr' = Some m' \<and> m \<le> m'"
proof -
  have in': "Some m \<in> set arr'" using assms masked_max_Some by blast
  then have "masked_max arr' \<noteq> None" by (auto simp: masked_max_None)
  then obtain m' where m': "masked_max arr' = Some m'" by auto
  with in' masked_max_Some have "m \<le> m'" by blast
  with m' show ?thesis by simp
qed

lemma set_read_masked:
  "set (read_masked src r0 r1 c0 c1) =
     (\<Union>r\<in>{r0..<r1}. (\<lambda>c. if masked src r c then None else Some (band src r c)) ` {c0..<c1})"
proof -
  have "{r0..r1 - 1} = {r0..<r1}" "{c0..c1 - 1} = {c0..<c1}" by auto
  then show ?thesis by (simp add: read_masked_def)
qed

lemma read_masked_mono:
  assumes "r0' \<le> r0" "r1 \<le> r1'" "c0' \<le> c0" "c1 \<le> c1'"
  shows "set (read_masked src r0 r1 c0 c1) \<subseteq> set (read_masked src r0' r1' c0' c1')"
proof -
  have "{r0..<r1} \<subseteq> {r0'..<r1'}" "{c0..<c1} \<subseteq> {c0'..<c1'}" using assms by auto
  then show ?thesis unfolding set_read_masked by blast
qed

lemma read_masked_nonempty:
  assumes "r0 < r1" "c0 < c1"
  shows "read_masked src r0 r1 c0 c1 \<noteq> []"
proof -
  have "r0 \<in> {r0..<r1}" "c0 \<in> {c0..<c1}" using assms by auto
  then have "(if masked src r0 c0 then None else Some (band src r0 c0)) \<in> set (read_masked src r0 r1 c0 c1)"
    unfolding set_read_masked by blast
  then show ?thesis by auto
qed

lemma estimate_floor_of_window:
  "estimate_min_height_from_local_terrain e src ox oy g radius margin =
     floor_of_window src (fst (rowcol e (transform src) ox oy)) (snd (rowcol e (transform src) ox oy))
       (max \<lceil>radius / max (min \<bar>tf_a (transform src)\<bar> \<bar>tf_e (transform src)\<bar>) (1 / 1000000)\<rceil> 1) g margin"
proof -
  obtain row col where rc: "rowcol e (transform src) ox oy = (row, col)" by (cases "rowcol e (transform src) ox oy")
  define px where "px = max \<lceil>radius / max (min \<bar>tf_a (transform src)\<bar> \<bar>tf_e (transform src)\<bar>) (1 / 1000000)\<rceil> 1"
  define r0 where "r0 = max (row - px) 0"
  define r1 where "r1 = min (row + px + 1) (height src)"
  define c0 where "c0 = max (col - px) 0"
  define c1 where "c1 = min (col + px + 1) (width src)"
  have lhs: "estimate_min_height_from_local_terrain e src ox oy g radius margin =
     (if r0 \<ge> r1 \<or> c0 \<ge> c1 then 0
         else if length (read_masked src r0 r1 c0 c1) = 0 then 0
              else (case masked_max (read_masked src r0 r1 c0 c1) of
                      None \<Rightarrow> 0
                    | Some local_max \<Rightarrow> max 0 (local_max - g + margin)))"
    unfolding estimate_min_height_from_local_terrain_def rc r0_def r1_def c0_def c1_def px_def
    by (simp only: Let_def prod.case)
  have rhs: "floor_of_window src row col px g margin =
     (if r0 \<ge> r1 \<or> c0 \<ge> c1 then 0
         else case masked_max (read_masked src r0 r1 c0 c1) of
                None \<Rightarrow> 0 | Some local_max \<Rightarrow> max 0 (local_max - g + margin))"
    unfolding floor_of_window_def r0_def r1_def c0_def c1_def by (simp only: Let_def)
  have "\<not> (r0 \<ge> r1 \<or> c0 \<ge> c1) \<Longrightarrow> length (read_masked src r0 r1 c0 c1) \<noteq> 0"
    using read_masked_nonempty[of r0 r1 c0 c1 src] by simp
  then have "estimate_min_height_from_local_terrain e src ox oy g radius margin = floor_of_window src row col px g margin"
    unfolding lhs rhs by presburger
  then show ?thesis by (simp add: rc px_def)
qed

lemma floor_of_window_nonneg: "0 \<le> floor_of_window src row col px g margin"
  by (auto simp: floor_of_window_def Let_def split: option.splits)

lemma floor_of_window_mono:
  assumes "px \<le> px'" "margin \<le> margin'"
  shows "floor_of_window src row col px g margin \<le> floor_of_window src row col px' g margin'"
proof -
  let ?r0 = "max (row - px) 0" and ?r1 = "min (row + px + 1) (height src)"
  let ?c0 = "max (col - px) 0" and ?c1 = "min (col + px + 1) (width src)"
  let ?r0' = "max (row - px') 0" and ?r1' = "min (row + px' + 1) (height src)"
  let ?c0' = "max (col - px') 0" and ?c1' = "min (col + px' + 1) (width src)"
  have b: "?r0' \<le> ?r0" "?r1 \<le> ?r1'" "?c0' \<le> ?c0" "?c1 \<le> ?c1'" using assms by auto
  show ?thesis
  proof (cases "?r0 \<ge> ?r1 \<or> ?c0 \<ge> ?c1")
    case True
    then have "floor_of_window src row col px g margin = 0"
      by (simp add: floor_of_window_def Let_def)
    then show ?thesis by (simp add: floor_of_window_nonneg)
  next
    case False
    then have ne': "\<not> (?r0' \<ge> ?r1' \<or> ?c0' \<ge> ?c1')" using b by linarith
    show ?thesis
    proof (cases "masked_max (read_masked src ?r0 ?r1 ?c0 ?c1)")
      case None
      then have "floor_of_window src row col px g margin = 0"
        using False by (simp add: floor_of_window_def Let_def)
      then show ?thesis by (simp add: floor_of_window_nonneg)
    next
      case (Some m)
      from masked_max_mono[OF read_masked_mono[OF b] Some]
      obtain m' where m': "masked_max (read_masked src ?r0' ?r1' ?c0' ?c1') = Some m'" "m \<le> m'"
        by blast
      have "floor_of_window src row col px g margin = max 0 (m - g + margin)"
        using False Some by (simp add: floor_of_window_def Let_def)
      moreover have "floor_of_window src row col px' g margin' = max 0 (m' - g + margin')"
        using ne' m' by (simp add: floor_of_window_def Let_def)
      ultimately show ?thesis using m' assms by simp
    qed
  qed
qed

lemma estimate_mono:
  assumes "radius \<le> radius'" "margin \<le> margin'"
  shows "estimate_min_height_from_local_terrain e src ox oy g radius margin
       \<le> estimate_min_height_from_local_terrain e src ox oy g radius' margin'"
proof -
  let ?p = "max (min \<bar>tf_a (transform src)\<bar> \<bar>tf_e (transform src)\<bar>) (1 / 1000000)"
  have "0 < ?p" by simp
  then have "radius / ?p \<le> radius' / ?p" using assms(1) by (simp add: divide_right_mono)
  then have "max \<lceil>radius / ?p\<rceil> 1 \<le> max \<lceil>radius' / ?p\<rceil> 1"
    by (simp add: ceiling_mono max.coboundedI1)
  then show ?thesis
    unfolding estimate_floor_of_window by (rule floor_of_window_mono) (rule assms(2))
qed

lemma estimate_nonneg: "0 \<le> estimate_min_height_from_local_terrain e src ox oy g radius margin"
  unfolding estimate_floor_of_window by (rule floor_of_window_nonneg)

subsection \<open>Validation\<close>

lemma drop_duplicates_from_subseq: "subseq (drop_duplicates_from seen xs) xs"
  by (induction xs arbitrary: seen) auto

lemma drop_duplicates_from_ids:
  "v_id (snd x) \<in> set seen \<Longrightarrow> x \<notin> set (drop_duplicates_from seen xs)"
  by (induction xs arbitrary: seen) auto

lemma drop_duplicates_from_distinct:
  "distinct (map (\<lambda>x. v_id (snd x)) (drop_duplicates_from seen xs))"
proof (induction xs arbitrary: seen)
  case Nil
  then show ?case by simp
next
  case (Cons x xs)
  show ?case
  proof (cases "v_id (snd x) \<in> set seen")
    case True
    then show ?thesis using Cons.IH by simp
  next
    case False
    have "v_id (snd x) \<notin> (\<lambda>y. v_id (snd y)) ` set (drop_duplicates_from (v_id (snd x) # seen) xs)"
    proof
      assume "v_id (snd x) \<in> (\<lambda>y. v_id (snd y)) ` set (drop_duplicates_from (v_id (snd x) # seen) xs)"
      then obtain y where y: "y \<in> set (drop_duplicates_from (v_id (snd x) # seen) xs)"
        and e: "v_id (snd y) = v_id (snd x)" by force
      have "v_id (snd y) \<in> set (v_id (snd x) # seen)" using e by simp
      from drop_duplicates_from_ids[OF this] y show False by blast
    qed
    then show ?thesis using False Cons.IH[of "v_id (snd x) # seen"] by simp
  qed
qed

lemma drop_duplicates_from_set:
  assumes "sorted_wrt (\<lambda>a b. fst a < fst b) xs"
  shows "x \<in> set (drop_duplicates_from seen xs) \<longleftrightarrow>
           x \<in> set xs \<and> v_id (snd x) \<notin> set seen \<and>
           (\<forall>y \<in> set xs. v_id (snd y) = v_id (snd x) \<longrightarrow> fst x \<le> fst y)"
  using assms
proof (induction xs arbitrary: seen)
  case Nil
  then show ?case by simp
next
  case (Cons z zs)
  then have lt: "\<And>y. y \<in> set zs \<Longrightarrow> fst z < fst y" and s: "sorted_wrt (\<lambda>a b. fst a < fst b) zs"
    by simp_all
  note IH = Cons.IH[OF s]
  show ?case
  proof (cases "v_id (snd z) \<in> set seen")
    case True
    then have "x \<in> set (drop_duplicates_from seen (z # zs)) \<longleftrightarrow>
         x \<in> set zs \<and> v_id (snd x) \<notin> set seen \<and>
           (\<forall>y \<in> set zs. v_id (snd y) = v_id (snd x) \<longrightarrow> fst x \<le> fst y)"
      using IH[of seen] by simp
    also have "\<dots> \<longleftrightarrow> x \<in> set (z # zs) \<and> v_id (snd x) \<notin> set seen \<and>
           (\<forall>y \<in> set (z # zs). v_id (snd y) = v_id (snd x) \<longrightarrow> fst x \<le> fst y)"
      using True by auto
    finally show ?thesis .
  next
    case False
    show ?thesis
    proof (cases "x = z")
      case True
      have "\<forall>y \<in> set (z # zs). fst z \<le> fst y" using lt by (auto simp: less_imp_le)
      then show ?thesis using True False by simp
    next
      case xz: False
      have "x \<in> set (drop_duplicates_from seen (z # zs)) \<longleftrightarrow>
         x \<in> set zs \<and> v_id (snd x) \<notin> set (v_id (snd z) # seen) \<and>
           (\<forall>y \<in> set zs. v_id (snd y) = v_id (snd x) \<longrightarrow> fst x \<le> fst y)"
        using IH[of "v_id (snd z) # seen"] False xz by simp
      also have "\<dots> \<longleftrightarrow> x \<in> set (z # zs) \<and> v_id (snd x) \<notin> set seen \<and>
           (\<forall>y \<in> set (z # zs). v_id (snd y) = v_id (snd x) \<longrightarrow> fst x \<le> fst y)"
      proof (cases "x \<in> set zs")
        case True
        then have "fst z < fst x" by (rule lt)
        then show ?thesis using xz by auto
      next
        case False
        then show ?thesis using xz by simp
      qed
      finally show ?thesis .
    qed
  qed
qed

lemma dropna_row_fst: "dropna_row x = Some y \<Longrightarrow> fst y = fst x"
  by (cases x) (auto split: option.splits)

lemma dropna_row_None: "dropna_row x = None \<longleftrightarrow> isna_any (snd x)"
  by (cases x) (auto simp: isna_any_def split: option.splits)

lemma map_fst_map_filter_dropna:
  "map fst (List.map_filter dropna_row xs) = map fst (filter (\<lambda>x. dropna_row x \<noteq> None) xs)"
  by (induction xs) (auto simp: List.map_filter_simps dropna_row_fst split: option.splits)

lemma set_map_filter_dropna:
  "y \<in> set (List.map_filter dropna_row xs) \<longleftrightarrow> (\<exists>x \<in> set xs. dropna_row x = Some y)"
  by (induction xs) (auto simp: List.map_filter_simps split: option.splits)

lemma length_map_filter_dropna:
  "length (filter (\<lambda>x. isna_any (snd x)) xs) + length (List.map_filter dropna_row xs) = length xs"
  by (induction xs) (auto simp: List.map_filter_simps isna_any_def split: option.splits)

lemma frame_indices: "map fst (frame_of t) = [0..<length (rows t)]"
  by (simp add: frame_of_def map_fst_enumerate)

lemma frame_member:
  "x \<in> set (frame_of t) \<longleftrightarrow> fst x < length (rows t) \<and> snd x = normalise (rows t ! fst x)"
  by (cases x) (auto simp: frame_of_def in_set_enumerate_eq)

lemma candidates_indices: "subseq (map fst (candidates t)) [0..<length (rows t)]"
proof -
  have "subseq (map fst (filter (\<lambda>x. dropna_row x \<noteq> None) (frame_of t))) (map fst (frame_of t))"
    by (intro subseq_map subseq_filter_left)
  then show ?thesis by (simp add: candidates_def map_fst_map_filter_dropna frame_indices)
qed

lemma candidates_member:
  assumes "x \<in> set (candidates t)"
  shows "fst x < length (rows t) \<and> dropna_row (fst x, normalise (rows t ! fst x)) = Some x"
proof -
  from assms obtain y where y: "y \<in> set (frame_of t)" "dropna_row y = Some x"
    by (auto simp: candidates_def set_map_filter_dropna)
  then have "fst x = fst y" by (simp add: dropna_row_fst)
  moreover have "y = (fst y, normalise (rows t ! fst y))" "fst y < length (rows t)"
    using y(1) by (simp_all add: frame_member prod_eq_iff)
  ultimately show ?thesis using y(2) by metis
qed

lemma subseq_sorted_indices:
  assumes "subseq xs ys" "sorted_wrt (\<lambda>a b. fst a < fst b) ys"
  shows "sorted_wrt (\<lambda>a b. fst a < fst b) xs"
  using assms by (induction rule: list_emb.induct) (auto dest: list_emb_set)

lemma candidates_sorted: "sorted_wrt (\<lambda>a b. fst a < fst b) (candidates t)"
proof -
  have "sorted_wrt (<) (map fst (frame_of t))" by (simp add: frame_indices)
  then have "sorted_wrt (\<lambda>a b. fst a < fst b) (frame_of t)" by (simp add: sorted_wrt_map)
  then have "sorted_wrt (\<lambda>a b. fst a < fst b) (filter (\<lambda>x. dropna_row x \<noteq> None) (frame_of t))"
    by (rule sorted_wrt_filter)
  then have "sorted_wrt (<) (map fst (candidates t))"
    by (simp add: candidates_def map_fst_map_filter_dropna sorted_wrt_map)
  then show ?thesis by (simp add: sorted_wrt_map)
qed

lemma validate_subseq: "subseq (fst (validate v t)) (candidates t)"
proof -
  have f: "\<And>P xs. subseq (filter P xs) xs" by (rule subseq_filter_left)
  have d: "\<And>xs. subseq (drop_duplicates xs) xs"
    by (simp add: drop_duplicates_def drop_duplicates_from_subseq)
  define df2 where "df2 = filter (\<lambda>x. v_id (snd x) \<noteq> []) (candidates t)"
  define df3 where "df3 = (if getd (drop_invalid_coords v) True
                 then filter (\<lambda>x. \<not> invalid_coord (snd x)) df2 else df2)"
  define df4 where "df4 = (if getd (drop_zero_coords v) True
                 then filter (\<lambda>x. \<not> zero_coord (snd x)) df3 else df3)"
  define df5 where "df5 = (if getd (dedupe_by_id v) True then drop_duplicates df4 else df4)"
  have v: "fst (validate v t) = df5"
    by (simp add: validate_def Let_def df5_def df4_def df3_def df2_def candidates_def)
  have "subseq df2 (candidates t)" unfolding df2_def by (rule f)
  moreover have "subseq df3 df2" unfolding df3_def by (simp add: f)
  moreover have "subseq df4 df3" unfolding df4_def by (simp add: f)
  moreover have "subseq df5 df4" unfolding df5_def by (simp add: d)
  ultimately show ?thesis unfolding v by (meson subseq_order.order_trans)
qed

lemma validate_dedupe:
  "getd (dedupe_by_id v) True \<Longrightarrow>
   fst (validate v t) = drop_duplicates (fst (validate (v\<lparr>dedupe_by_id := Some False\<rparr>) t))"
  by (simp add: validate_def Let_def getd_def)

lemma validate_counts:
  assumes "getd (drop_invalid_coords v) True" "getd (drop_zero_coords v) True"
  shows "rows_valid (snd (validate v t)) + (rows_dropped_nan (snd (validate v t))
           + rows_dropped_empty_id (snd (validate v t))
           + rows_dropped_invalid_range (snd (validate v t))
           + rows_dropped_zero_coords (snd (validate v t))
           + rows_dropped_duplicate_id (snd (validate v t))) = rows_input (snd (validate v t))"
proof -
  have c: "\<And>P xs. int (length (filter P xs)) + int (length (filter (\<lambda>x. \<not> P x) xs)) = int (length xs)"
    by (metis of_nat_add sum_length_filter_compl)
  have n: "int (length (filter (\<lambda>x. isna_any (snd x)) (frame_of t)))
         + int (length (List.map_filter dropna_row (frame_of t))) = int (length (frame_of t))"
    by (metis of_nat_add length_map_filter_dropna)
  show ?thesis
    using assms n
      c[of "\<lambda>x. v_id (snd x) = []" "List.map_filter dropna_row (frame_of t)"]
      c[of "\<lambda>x. invalid_coord (snd x)" "filter (\<lambda>x. v_id (snd x) \<noteq> []) (List.map_filter dropna_row (frame_of t))"]
      c[of "\<lambda>x. zero_coord (snd x)" "filter (\<lambda>x. \<not> invalid_coord (snd x)) (filter (\<lambda>x. v_id (snd x) \<noteq> []) (List.map_filter dropna_row (frame_of t)))"]
    by (simp add: validate_def Let_def)
qed

subsection \<open>Loading nodes\<close>

lemma resolve_node_margin: "snd (resolve_node e cfg src cols r) = fresnel_margin_of cfg"
  by (simp add: resolve_node_def Let_def split: prod.splits)

lemma resolve_node_height:
  "height_m (fst (resolve_node e cfg src cols r)) =
     used_height (input_height_m (fst (resolve_node e cfg src cols r)))
       (getd (min_height_m (hs cfg)) 4) (getd (max_height_m (hs cfg)) 120)
       (min_required_height_m (fst (resolve_node e cfg src cols r))) (fresnel_margin_of cfg)"
  by (simp add: resolve_node_def Let_def split: prod.splits)

lemma load_nodes_InrD:
  assumes "load_nodes e cfg dem = Inr res"
  shows "\<exists>t src. nodes_file e (nodes_csv cfg) = Some t \<and> open_raster e dem = Some src \<and>
           lr_nodes res = map (\<lambda>x. fst (resolve_node e cfg src (columns t) (snd x)))
                              (fst (validate (validation cfg) t)) \<and>
           lr_fresnel_margin_vals res = map (\<lambda>x. snd (resolve_node e cfg src (columns t) (snd x)))
                              (fst (validate (validation cfg) t)) \<and>
           row_stats.truncate (lr_stats res) = snd (validate (validation cfg) t) \<and>
           lr_rejected res = (case nodes_rejected_csv cfg of None \<Rightarrow> None
                              | Some out \<Rightarrow> if out = [] then None
                                  else Some (out, rejected_rows t (fst (validate (validation cfg) t))))"
  using assms
  by (auto simp: load_nodes_def Let_def row_stats.truncate_def row_stats.extend_def
      split: option.splits if_splits prod.splits)

lemma used_height_spec:
  "used_height raw_h min_h max_h tf ff = spec_final_height raw_h min_h max_h tf ff"
  unfolding used_height_def spec_final_height_def spec_clamp_def Let_def by linarith

lemma ex_fresnel_margin: "fresnel_margin_of ex_cfg = 10392 / 1000"
  by (simp add: fresnel_margin_of_def ex_cfg_def getd_def fresnel_radius_m_def)

lemma ex_validate:
  "fst (validate (validation ex_cfg) ex_table) =
     [(0, \<lparr>v_id = ''A'', v_name = None, v_lat = 50, v_lon = 14,
           v_extra = (\<lambda>c. if c = ''height_m'' then Some 10 else None)\<rparr>)]"
  by (simp add: validate_def ex_cfg_def ex_table_def ex_row_def frame_of_def normalise_def
      strip_def is_space_def List.map_filter_def invalid_coord_def zero_coord_def getd_def
      drop_duplicates_def Let_def)


lemma upto_0_2: "[0..2::int] = [0, 1, 2]"
  by (simp add: upto_rec1)

lemma ex_estimate:
  "estimate_min_height_from_local_terrain ex_env ex_dem 14 50 0 300 2 = 2"
  by (simp add: estimate_min_height_from_local_terrain_def ex_env_def ex_dem_def Let_def
      read_masked_def masked_max_def upto_0_2)

lemma ex_rowcol: "rowcol ex_env (transform ex_dem) 14 50 = (2, 1)"
  by (simp add: ex_env_def ex_dem_def)

lemma ex_resolve:
  "resolve_node ex_env ex_cfg ex_dem (columns ex_table) ex_vrow =
     (\<lparr>node_id = ''A'', name = ''A'', lat = 50, lon = 14, input_height_m = 10,
       min_required_height_m = 2, height_m = 12392 / 1000, ground_elev_m = Some 0\<rparr>, 10392 / 1000)"
proof -
  have rt: "rio_transform ex_env (crs ex_dem) 14 50 = (14, 50)" by (simp add: ex_env_def)
  have hc: "height_column (columns ex_table) = Some ''height_m''"
    by (simp add: height_column_def ex_table_def)
  have b: "band ex_dem 2 1 = 0" "height ex_dem = 3" "width ex_dem = 3" by (simp_all add: ex_dem_def)
  have c: "getd (mode (hs ex_cfg)) ''adaptive_min'' = ''adaptive_min''"
    "getd (local_radius_m (hs ex_cfg)) 300 = 300" "getd (clearance_margin_m (hs ex_cfg)) 2 = 2"
    "getd (min_height_m (hs ex_cfg)) 4 = 4" "getd (max_height_m (hs ex_cfg)) 120 = 120"
    "getd (observer_height_default_m (viewshed ex_cfg)) 6 = 6"
    by (simp_all add: ex_cfg_def getd_def)
  have n: "''name'' \<notin> set (columns ex_table)" by (simp add: ex_table_def)
  show ?thesis
    unfolding resolve_node_def
    by (simp add: Let_def ex_vrow_def rt ex_rowcol hc b c n ex_estimate ex_fresnel_margin used_height_def)
qed

lemma load_nodes_returns:
  assumes "nodes_file e (nodes_csv cfg) = Some t" "{''id'', ''lat'', ''lon''} \<subseteq> set (columns t)"
    "open_raster e dem = Some src"
  shows "\<exists>res. load_nodes e cfg dem = Inr res"
  using assms by (simp add: load_nodes_def Let_def split: prod.splits)

lemma ex_load_gen:
  assumes "nodes_csv cfg = ''nodes.csv''"
  shows "load_nodes ex_env cfg ''dem.tif'' = Inr (projr (load_nodes ex_env cfg ''dem.tif''))"
    and "lr_nodes (projr (load_nodes ex_env cfg ''dem.tif'')) =
           map (\<lambda>x. fst (resolve_node ex_env cfg ex_dem (columns ex_table) (snd x)))
               (fst (validate (validation cfg) ex_table))"
    and "lr_fresnel_margin_vals (projr (load_nodes ex_env cfg ''dem.tif'')) =
           map (\<lambda>x. snd (resolve_node ex_env cfg ex_dem (columns ex_table) (snd x)))
               (fst (validate (validation cfg) ex_table))"
    and "row_stats.truncate (lr_stats (projr (load_nodes ex_env cfg ''dem.tif''))) =
           snd (validate (validation cfg) ex_table)"
    and "lr_rejected (projr (load_nodes ex_env cfg ''dem.tif'')) =
           (case nodes_rejected_csv cfg of None \<Rightarrow> None
            | Some out \<Rightarrow> if out = [] then None
                else Some (out, rejected_rows ex_table (fst (validate (validation cfg) ex_table))))"
proof -
  have f: "nodes_file ex_env (nodes_csv cfg) = Some ex_table" using assms by (simp add: ex_env_def)
  have c: "{''id'', ''lat'', ''lon''} \<subseteq> set (columns ex_table)" by (simp add: ex_table_def)
  have r: "open_raster ex_env ''dem.tif'' = Some ex_dem" by (simp add: ex_env_def)
  from load_nodes_returns[OF f c r] obtain res where res: "load_nodes ex_env cfg ''dem.tif'' = Inr res"
    by blast
  then show l: "load_nodes ex_env cfg ''dem.tif'' = Inr (projr (load_nodes ex_env cfg ''dem.tif''))"
    by simp
  from load_nodes_InrD[OF l] f r
  show "lr_nodes (projr (load_nodes ex_env cfg ''dem.tif'')) =
           map (\<lambda>x. fst (resolve_node ex_env cfg ex_dem (columns ex_table) (snd x)))
               (fst (validate (validation cfg) ex_table))"
    and "lr_fresnel_margin_vals (projr (load_nodes ex_env cfg ''dem.tif'')) =
           map (\<lambda>x. snd (resolve_node ex_env cfg ex_dem (columns ex_table) (snd x)))
               (fst (validate (validation cfg) ex_table))"
    and "row_stats.truncate (lr_stats (projr (load_nodes ex_env cfg ''dem.tif''))) =
           snd (validate (validation cfg) ex_table)"
    and "lr_rejected (projr (load_nodes ex_env cfg ''dem.tif'')) =
           (case nodes_rejected_csv cfg of None \<Rightarrow> None
            | Some out \<Rightarrow> if out = [] then None
                else Some (out, rejected_rows ex_table (fst (validate (validation cfg) ex_table))))"
    by auto
qed

lemma ex_load: "load_nodes ex_env ex_cfg ''dem.tif'' = Inr ex_loaded"
  unfolding ex_loaded_def by (rule ex_load_gen(1)) (simp add: ex_cfg_def)

lemma ex_nodes:
  "lr_nodes ex_loaded =
     [\<lparr>node_id = ''A'', name = ''A'', lat = 50, lon = 14, input_height_m = 10,
       min_required_height_m = 2, height_m = 12392 / 1000, ground_elev_m = Some 0\<rparr>]"
  "lr_fresnel_margin_vals ex_loaded = [10392 / 1000]"
proof -
  have n: "nodes_csv ex_cfg = ''nodes.csv''" by (simp add: ex_cfg_def)
  show "lr_nodes ex_loaded =
     [\<lparr>node_id = ''A'', name = ''A'', lat = 50, lon = 14, input_height_m = 10,
       min_required_height_m = 2, height_m = 12392 / 1000, ground_elev_m = Some 0\<rparr>]"
    unfolding ex_loaded_def ex_load_gen(2)[OF n] ex_validate
    by (simp add: ex_resolve[unfolded ex_vrow_def])
  show "lr_fresnel_margin_vals ex_loaded = [10392 / 1000]"
    unfolding ex_loaded_def ex_load_gen(3)[OF n] ex_validate
    by (simp add: ex_resolve[unfolded ex_vrow_def])
qed

lemma ex_validate_keep_zero:
  "fst (validate (validation ex_cfg_keep_zero) ex_table) = [(0, ex_vrow), (1, ex_vrow_B)]"
  by (simp add: validate_def ex_cfg_keep_zero_def ex_cfg_def ex_table_def ex_row_def frame_of_def
      normalise_def strip_def is_space_def List.map_filter_def invalid_coord_def zero_coord_def
      getd_def drop_duplicates_def Let_def ex_vrow_def ex_vrow_B_def)

lemma ex_fresnel_margin_keep_zero: "fresnel_margin_of ex_cfg_keep_zero = 10392 / 1000"
  by (simp add: fresnel_margin_of_def ex_cfg_keep_zero_def ex_cfg_def getd_def fresnel_radius_m_def)

lemma ex_resolve_keep_zero_B:
  "resolve_node ex_env ex_cfg_keep_zero ex_dem (columns ex_table) ex_vrow_B =
     (\<lparr>node_id = ''B'', name = ''B'', lat = 0, lon = 0, input_height_m = 5,
       min_required_height_m = 0, height_m = 10392 / 1000, ground_elev_m = None\<rparr>, 10392 / 1000)"
proof -
  have rt: "rio_transform ex_env (crs ex_dem) 0 0 = (0, 0)" by (simp add: ex_env_def)
  have rc: "rowcol ex_env (transform ex_dem) 0 0 = (52, - 13)" by (simp add: ex_env_def ex_dem_def)
  have hc: "height_column (columns ex_table) = Some ''height_m''"
    by (simp add: height_column_def ex_table_def)
  have b: "height ex_dem = 3" "width ex_dem = 3" by (simp_all add: ex_dem_def)
  have c: "getd (min_height_m (hs ex_cfg_keep_zero)) 4 = 4"
    "getd (max_height_m (hs ex_cfg_keep_zero)) 120 = 120"
    by (simp_all add: ex_cfg_keep_zero_def ex_cfg_def getd_def)
  have n: "''name'' \<notin> set (columns ex_table)" by (simp add: ex_table_def)
  show ?thesis
    unfolding resolve_node_def
    by (simp add: Let_def ex_vrow_B_def rt rc hc b c n ex_fresnel_margin_keep_zero used_height_def)
qed

lemma ex_load_keep_zero: "load_nodes ex_env ex_cfg_keep_zero ''dem.tif'' = Inr ex_loaded_keep_zero"
  unfolding ex_loaded_keep_zero_def
  by (rule ex_load_gen(1)) (simp add: ex_cfg_keep_zero_def ex_cfg_def)

lemma ex_nodes_keep_zero:
  "length (lr_nodes ex_loaded_keep_zero) = 2"
  "lr_nodes ex_loaded_keep_zero ! 1 =
     \<lparr>node_id = ''B'', name = ''B'', lat = 0, lon = 0, input_height_m = 5,
       min_required_height_m = 0, height_m = 10392 / 1000, ground_elev_m = None\<rparr>"
  "node_id (lr_nodes ex_loaded_keep_zero ! 0) = ''A''"
proof -
  have n: "nodes_csv ex_cfg_keep_zero = ''nodes.csv''" by (simp add: ex_cfg_keep_zero_def ex_cfg_def)
  show "length (lr_nodes ex_loaded_keep_zero) = 2"
    unfolding ex_loaded_keep_zero_def ex_load_gen(2)[OF n] ex_validate_keep_zero by simp
  show "lr_nodes ex_loaded_keep_zero ! 1 =
     \<lparr>node_id = ''B'', name = ''B'', lat = 0, lon = 0, input_height_m = 5,
       min_required_height_m = 0, height_m = 10392 / 1000, ground_elev_m = None\<rparr>"
    unfolding ex_loaded_keep_zero_def ex_load_gen(2)[OF n] ex_validate_keep_zero
    by (simp add: ex_resolve_keep_zero_B)
  show "node_id (lr_nodes ex_loaded_keep_zero ! 0) = ''A''"
    unfolding ex_loaded_keep_zero_def ex_load_gen(2)[OF n] ex_validate_keep_zero
    by (simp add: resolve_node_def Let_def ex_vrow_def split: prod.splits)
qed

subsection \<open>The final height\<close>

text \<open>
  Claim C1. Every node that \<^verbatim>\<open>_load_nodes\<close> returns has the final height
  \<^verbatim>\<open>clamp(max(input_height, min_height_global, terrain_floor, terrain_floor + fresnel_floor),
  min_height_global, max_height_global)\<close>, where the terrain floor is the node's
  \<^verbatim>\<open>min_required_height_m\<close> and the Fresnel floor is the Fresnel margin of the run
  (0 when Fresnel is disabled): the margin is added to the terrain floor, not to the input
  height.
\<close>

theorem final_height_formula:
  assumes "load_nodes e cfg dem = Inr res" and "i < length (lr_nodes res)"
  shows "height_m (lr_nodes res ! i) =
           spec_final_height (input_height_m (lr_nodes res ! i))
             (getd (min_height_m (hs cfg)) 4) (getd (max_height_m (hs cfg)) 120)
             (min_required_height_m (lr_nodes res ! i)) (lr_fresnel_margin_vals res ! i) \<and>
         lr_fresnel_margin_vals res ! i =
           (if getd (use_fresnel (hs cfg)) True
            then max 0 (fresnel_radius_m (getd (max_distance_m (viewshed cfg)) 20000)
                          (getd (frequency_mhz cfg) 868) (getd (fresnel_sample_ratio (hs cfg)) (1 / 2))
                        * getd (fresnel_clearance_ratio (hs cfg)) (6 / 10))
            else 0)"
proof -
  from load_nodes_InrD[OF assms(1)] obtain t src where
    n: "lr_nodes res = map (\<lambda>x. fst (resolve_node e cfg src (columns t) (snd x)))
                              (fst (validate (validation cfg) t))" and
    m: "lr_fresnel_margin_vals res = map (\<lambda>x. snd (resolve_node e cfg src (columns t) (snd x)))
                              (fst (validate (validation cfg) t))"
    by blast
  have i: "i < length (fst (validate (validation cfg) t))" using assms(2) n by simp
  have mi: "lr_fresnel_margin_vals res ! i = fresnel_margin_of cfg"
    using i by (simp add: m resolve_node_margin)
  have "height_m (lr_nodes res ! i) =
      used_height (input_height_m (lr_nodes res ! i))
       (getd (min_height_m (hs cfg)) 4) (getd (max_height_m (hs cfg)) 120)
       (min_required_height_m (lr_nodes res ! i)) (fresnel_margin_of cfg)"
    using i by (simp add: n resolve_node_height)
  then show ?thesis
    using mi by (simp add: used_height_spec fresnel_margin_of_def)
qed

theorem final_height_formula_witness:
  "load_nodes ex_env ex_cfg ''dem.tif'' = Inr ex_loaded \<and> 0 < length (lr_nodes ex_loaded) \<and>
   height_m (lr_nodes ex_loaded ! 0) = spec_final_height 10 4 120 2 (10392 / 1000) \<and>
   height_m (lr_nodes ex_loaded ! 0) = 12392 / 1000"
proof -
  have l: "0 < length (lr_nodes ex_loaded)" by (simp add: ex_nodes)
  have c: "getd (min_height_m (hs ex_cfg)) 4 = 4" "getd (max_height_m (hs ex_cfg)) 120 = 120"
    by (simp_all add: ex_cfg_def getd_def)
  from final_height_formula[OF ex_load l]
  have "height_m (lr_nodes ex_loaded ! 0) = spec_final_height 10 4 120 2 (10392 / 1000)"
    by (simp add: ex_nodes c)
  then show ?thesis using ex_load l by (simp add: ex_nodes)
qed

subsection \<open>The Fresnel margin of a run\<close>

text \<open>
  Claim C10. Within one run the Fresnel margin is the same for every node: it is computed
  from the run-level configuration only (Fresnel switch, maximal distance, frequency, split
  ratio, clearance ratio), whatever the node's position, terrain or input height.
\<close>

theorem fresnel_margin_same_for_all_nodes:
  assumes "load_nodes e cfg dem = Inr res"
    and "i < length (lr_nodes res)" and "j < length (lr_nodes res)"
  shows "length (lr_fresnel_margin_vals res) = length (lr_nodes res) \<and>
         lr_fresnel_margin_vals res ! i = lr_fresnel_margin_vals res ! j \<and>
         lr_fresnel_margin_vals res ! i =
           (if getd (use_fresnel (hs cfg)) True
            then max 0 (fresnel_radius_m (getd (max_distance_m (viewshed cfg)) 20000)
                          (getd (frequency_mhz cfg) 868) (getd (fresnel_sample_ratio (hs cfg)) (1 / 2))
                        * getd (fresnel_clearance_ratio (hs cfg)) (6 / 10))
            else 0)"
proof -
  from load_nodes_InrD[OF assms(1)] obtain t src where
    n: "lr_nodes res = map (\<lambda>x. fst (resolve_node e cfg src (columns t) (snd x)))
                              (fst (validate (validation cfg) t))" and
    m: "lr_fresnel_margin_vals res = map (\<lambda>x. snd (resolve_node e cfg src (columns t) (snd x)))
                              (fst (validate (validation cfg) t))"
    by blast
  have ij: "i < length (fst (validate (validation cfg) t))" "j < length (fst (validate (validation cfg) t))"
    using assms(2,3) n by simp_all
  have "lr_fresnel_margin_vals res ! i = fresnel_margin_of cfg"
    "lr_fresnel_margin_vals res ! j = fresnel_margin_of cfg"
    using ij by (simp_all add: m resolve_node_margin)
  moreover have "length (lr_fresnel_margin_vals res) = length (lr_nodes res)"
    by (simp add: n m)
  ultimately show ?thesis by (simp add: fresnel_margin_of_def)
qed

theorem fresnel_margin_same_for_all_nodes_witness:
  "load_nodes ex_env ex_cfg_keep_zero ''dem.tif'' = Inr ex_loaded_keep_zero \<and>
   0 < length (lr_nodes ex_loaded_keep_zero) \<and> 1 < length (lr_nodes ex_loaded_keep_zero) \<and>
   node_id (lr_nodes ex_loaded_keep_zero ! 0) = ''A'' \<and>
   node_id (lr_nodes ex_loaded_keep_zero ! 1) = ''B'' \<and>
   ground_elev_m (lr_nodes ex_loaded_keep_zero ! 1) = None \<and>
   lr_fresnel_margin_vals ex_loaded_keep_zero ! 0 = lr_fresnel_margin_vals ex_loaded_keep_zero ! 1 \<and>
   lr_fresnel_margin_vals ex_loaded_keep_zero ! 0 = 10392 / 1000"
proof -
  have l: "0 < length (lr_nodes ex_loaded_keep_zero)" "1 < length (lr_nodes ex_loaded_keep_zero)"
    by (simp_all add: ex_nodes_keep_zero)
  from fresnel_margin_same_for_all_nodes[OF ex_load_keep_zero l]
  have m: "lr_fresnel_margin_vals ex_loaded_keep_zero ! 0 = lr_fresnel_margin_vals ex_loaded_keep_zero ! 1"
    "lr_fresnel_margin_vals ex_loaded_keep_zero ! 0 = fresnel_margin_of ex_cfg_keep_zero"
    by (simp_all add: fresnel_margin_of_def)
  have b: "node_id (lr_nodes ex_loaded_keep_zero ! 1) = ''B''"
    "ground_elev_m (lr_nodes ex_loaded_keep_zero ! 1) = None"
    unfolding ex_nodes_keep_zero(2) by simp_all
  show ?thesis
    using ex_load_keep_zero l m(1) m(2)[unfolded ex_fresnel_margin_keep_zero] b ex_nodes_keep_zero(3)
    by blast
qed

subsection \<open>Range and monotonicity of the final height\<close>

lemma used_height_min_above_max:
  "max_h < min_h \<Longrightarrow> used_height raw_h min_h max_h mr fm = max_h"
  unfolding used_height_def Let_def by linarith

lemma used_height_mono:
  "mr \<le> mr' \<Longrightarrow> fm \<le> fm' \<Longrightarrow>
   used_height raw_h min_h max_h mr fm \<le> used_height raw_h min_h max_h mr' fm'"
  unfolding used_height_def Let_def by linarith

lemma used_height_le_max: "used_height raw_h min_h max_h mr fm \<le> max_h"
  unfolding used_height_def Let_def by linarith

lemma used_height_ge_min: "min_h \<le> max_h \<Longrightarrow> min_h \<le> used_height raw_h min_h max_h mr fm"
  unfolding used_height_def Let_def by linarith

lemma fresnel_margin_of_mono:
  assumes "getd (fresnel_clearance_ratio (hs cfg)) (6 / 10) \<le> q'"
  shows "fresnel_margin_of cfg
       \<le> fresnel_margin_of (cfg\<lparr>hs := (hs cfg)\<lparr>local_radius_m := Some r', clearance_margin_m := Some m',
                                               fresnel_clearance_ratio := Some q'\<rparr>\<rparr>)"
proof -
  let ?R = "fresnel_radius_m (getd (max_distance_m (viewshed cfg)) 20000)
              (getd (frequency_mhz cfg) 868) (getd (fresnel_sample_ratio (hs cfg)) (1 / 2))"
  have "?R * getd (fresnel_clearance_ratio (hs cfg)) (6 / 10) \<le> ?R * q'"
    using assms fresnel_nonneg by (rule mult_left_mono)
  then show ?thesis
    by (simp add: fresnel_margin_of_def getd_def max.coboundedI2)
qed

lemma resolve_node_mono:
  assumes "getd (local_radius_m (hs cfg)) 300 \<le> r'"
    and "getd (clearance_margin_m (hs cfg)) 2 \<le> m'"
    and "getd (fresnel_clearance_ratio (hs cfg)) (6 / 10) \<le> q'"
  defines "cfg' \<equiv> cfg\<lparr>hs := (hs cfg)\<lparr>local_radius_m := Some r', clearance_margin_m := Some m',
                                         fresnel_clearance_ratio := Some q'\<rparr>\<rparr>"
  shows "node_id (fst (resolve_node e cfg src cols v)) = node_id (fst (resolve_node e cfg' src cols v)) \<and>
         height_m (fst (resolve_node e cfg src cols v)) \<le> height_m (fst (resolve_node e cfg' src cols v))"
proof -
  obtain ox oy where rt: "rio_transform e (crs src) (v_lon v) (v_lat v) = (ox, oy)"
    by (cases "rio_transform e (crs src) (v_lon v) (v_lat v)")
  obtain row col where rc: "rowcol e (transform src) ox oy = (row, col)"
    by (cases "rowcol e (transform src) ox oy")
  have same: "viewshed cfg' = viewshed cfg" "mode (hs cfg') = mode (hs cfg)"
    "min_height_m (hs cfg') = min_height_m (hs cfg)" "max_height_m (hs cfg') = max_height_m (hs cfg)"
    "getd (local_radius_m (hs cfg')) 300 = r'" "getd (clearance_margin_m (hs cfg')) 2 = m'"
    by (simp_all add: cfg'_def getd_def)
  have i: "input_height_m (fst (resolve_node e cfg' src cols v)) =
           input_height_m (fst (resolve_node e cfg src cols v))"
    by (simp add: resolve_node_def Let_def rt rc same)
  have n: "node_id (fst (resolve_node e cfg src cols v)) = node_id (fst (resolve_node e cfg' src cols v))"
    by (simp add: resolve_node_def Let_def rt rc)
  have est: "estimate_min_height_from_local_terrain e src ox oy (band src row col)
               (getd (local_radius_m (hs cfg)) 300) (getd (clearance_margin_m (hs cfg)) 2)
           \<le> estimate_min_height_from_local_terrain e src ox oy (band src row col) r' m'"
    using assms(1,2) by (rule estimate_mono)
  have m: "min_required_height_m (fst (resolve_node e cfg src cols v))
         \<le> min_required_height_m (fst (resolve_node e cfg' src cols v))"
    using est by (simp add: resolve_node_def Let_def rt rc same)
  have f: "fresnel_margin_of cfg \<le> fresnel_margin_of cfg'"
    unfolding cfg'_def using assms(3) by (rule fresnel_margin_of_mono)
  have "height_m (fst (resolve_node e cfg src cols v)) \<le> height_m (fst (resolve_node e cfg' src cols v))"
    unfolding resolve_node_height i same using m f by (rule used_height_mono)
  with n show ?thesis by simp
qed

lemma ex_resolve_min_above_max:
  "height_m (fst (resolve_node ex_env ex_cfg_min_above_max ex_dem (columns ex_table) ex_vrow)) = 120"
proof -
  have c: "getd (min_height_m (hs ex_cfg_min_above_max)) 4 = 200"
    "getd (max_height_m (hs ex_cfg_min_above_max)) 120 = 120"
    by (simp_all add: ex_cfg_min_above_max_def ex_cfg_def getd_def)
  show ?thesis
    unfolding resolve_node_height c by (simp add: used_height_def)
qed

lemma ex_nodes_min_above_max:
  "lr_nodes ex_loaded_min_above_max =
     [fst (resolve_node ex_env ex_cfg_min_above_max ex_dem (columns ex_table) ex_vrow)]"
proof -
  have n: "nodes_csv ex_cfg_min_above_max = ''nodes.csv''"
    by (simp add: ex_cfg_min_above_max_def ex_cfg_def)
  have v: "validation ex_cfg_min_above_max = validation ex_cfg"
    by (simp add: ex_cfg_min_above_max_def)
  show ?thesis
    unfolding ex_loaded_min_above_max_def ex_load_gen(2)[OF n] v ex_validate
    by (simp add: ex_vrow_def)
qed

text \<open>
  Claim C4, as amended. The final height of every node is at most the configured maximum;
  it is at least the configured minimum when the minimum does not exceed the maximum, and
  it equals the maximum when the minimum exceeds it. With every other input fixed, the
  final height of each node does not decrease when \<^verbatim>\<open>local_radius_m\<close>,
  \<^verbatim>\<open>clearance_margin_m\<close> or \<^verbatim>\<open>fresnel_clearance_ratio\<close> increase (one of
  them, or several at once).
\<close>

theorem used_height_range_and_monotone:
  assumes "load_nodes e cfg dem = Inr res"
    and "load_nodes e (cfg\<lparr>hs := (hs cfg)\<lparr>local_radius_m := Some r', clearance_margin_m := Some m',
                                            fresnel_clearance_ratio := Some q'\<rparr>\<rparr>) dem = Inr res'"
    and "getd (local_radius_m (hs cfg)) 300 \<le> r'"
    and "getd (clearance_margin_m (hs cfg)) 2 \<le> m'"
    and "getd (fresnel_clearance_ratio (hs cfg)) (6 / 10) \<le> q'"
  shows "(\<forall>n \<in> set (lr_nodes res).
            height_m n \<le> getd (max_height_m (hs cfg)) 120 \<and>
            (getd (min_height_m (hs cfg)) 4 \<le> getd (max_height_m (hs cfg)) 120
               \<longrightarrow> getd (min_height_m (hs cfg)) 4 \<le> height_m n) \<and>
            (getd (max_height_m (hs cfg)) 120 < getd (min_height_m (hs cfg)) 4
               \<longrightarrow> height_m n = getd (max_height_m (hs cfg)) 120)) \<and>
         list_all2 (\<lambda>n n'. node_id n = node_id n' \<and> height_m n \<le> height_m n')
           (lr_nodes res) (lr_nodes res')"
proof -
  let ?cfg' = "cfg\<lparr>hs := (hs cfg)\<lparr>local_radius_m := Some r', clearance_margin_m := Some m',
                                     fresnel_clearance_ratio := Some q'\<rparr>\<rparr>"
  from load_nodes_InrD[OF assms(1)] obtain t src where
    f: "nodes_file e (nodes_csv cfg) = Some t" and o: "open_raster e dem = Some src" and
    n: "lr_nodes res = map (\<lambda>x. fst (resolve_node e cfg src (columns t) (snd x)))
                              (fst (validate (validation cfg) t))"
    by blast
  from load_nodes_InrD[OF assms(2)] obtain t' src' where
    f': "nodes_file e (nodes_csv ?cfg') = Some t'" and o': "open_raster e dem = Some src'" and
    n': "lr_nodes res' = map (\<lambda>x. fst (resolve_node e ?cfg' src' (columns t') (snd x)))
                              (fst (validate (validation ?cfg') t'))"
    by blast
  have eq: "t' = t" "src' = src" using f f' o o' by simp_all
  have range: "\<forall>n \<in> set (lr_nodes res).
            height_m n \<le> getd (max_height_m (hs cfg)) 120 \<and>
            (getd (min_height_m (hs cfg)) 4 \<le> getd (max_height_m (hs cfg)) 120
               \<longrightarrow> getd (min_height_m (hs cfg)) 4 \<le> height_m n) \<and>
            (getd (max_height_m (hs cfg)) 120 < getd (min_height_m (hs cfg)) 4
               \<longrightarrow> height_m n = getd (max_height_m (hs cfg)) 120)"
    unfolding n
    by (auto simp: resolve_node_height used_height_le_max used_height_ge_min
        used_height_min_above_max)
  have "list_all2 (\<lambda>n n'. node_id n = node_id n' \<and> height_m n \<le> height_m n')
           (lr_nodes res) (lr_nodes res')"
    unfolding n n' eq
    by (simp add: list_all2_map1 list_all2_map2 list.rel_refl_strong resolve_node_mono[OF assms(3,4,5)])
  with range show ?thesis by blast
qed

theorem used_height_range_and_monotone_witness:
  "load_nodes ex_env ex_cfg ''dem.tif'' = Inr ex_loaded \<and>
   load_nodes ex_env ex_cfg_raised ''dem.tif'' = Inr ex_loaded_raised \<and>
   getd (local_radius_m (hs ex_cfg)) 300 \<le> 400 \<and>
   getd (clearance_margin_m (hs ex_cfg)) 2 \<le> 3 \<and>
   getd (fresnel_clearance_ratio (hs ex_cfg)) (6 / 10) \<le> 1 \<and>
   getd (min_height_m (hs ex_cfg)) 4 \<le> getd (max_height_m (hs ex_cfg)) 120 \<and>
   4 \<le> height_m (hd (lr_nodes ex_loaded)) \<and> height_m (hd (lr_nodes ex_loaded)) \<le> 120 \<and>
   height_m (hd (lr_nodes ex_loaded)) \<le> height_m (hd (lr_nodes ex_loaded_raised)) \<and>
   load_nodes ex_env ex_cfg_min_above_max ''dem.tif'' = Inr ex_loaded_min_above_max \<and>
   load_nodes ex_env ex_cfg_min_above_max_raised ''dem.tif'' = Inr ex_loaded_min_above_max_raised \<and>
   getd (max_height_m (hs ex_cfg_min_above_max)) 120 < getd (min_height_m (hs ex_cfg_min_above_max)) 4 \<and>
   height_m (hd (lr_nodes ex_loaded_min_above_max)) = 120"
proof -
  have n: "nodes_csv ex_cfg_raised = ''nodes.csv''"
    by (simp add: ex_cfg_raised_def ex_cfg_def)
  have l': "load_nodes ex_env ex_cfg_raised ''dem.tif'' = Inr ex_loaded_raised"
    unfolding ex_loaded_raised_def using n by (rule ex_load_gen(1))
  have c: "getd (local_radius_m (hs ex_cfg)) 300 \<le> 400"
    "getd (clearance_margin_m (hs ex_cfg)) 2 \<le> 3"
    "getd (fresnel_clearance_ratio (hs ex_cfg)) (6 / 10) \<le> 1"
    by (simp_all add: ex_cfg_def getd_def)
  have d: "getd (min_height_m (hs ex_cfg)) 4 = 4" "getd (max_height_m (hs ex_cfg)) 120 = 120"
    by (simp_all add: ex_cfg_def getd_def)
  note t = used_height_range_and_monotone[OF ex_load l'[unfolded ex_cfg_raised_def] c]
  from t have r: "4 \<le> height_m (hd (lr_nodes ex_loaded)) \<and> height_m (hd (lr_nodes ex_loaded)) \<le> 120"
    by (simp add: ex_nodes d)
  from t have "list_all2 (\<lambda>n n'. node_id n = node_id n' \<and> height_m n \<le> height_m n')
           (lr_nodes ex_loaded) (lr_nodes ex_loaded_raised)"
    by blast
  then have m: "height_m (hd (lr_nodes ex_loaded)) \<le> height_m (hd (lr_nodes ex_loaded_raised))"
    by (cases "lr_nodes ex_loaded_raised") (simp_all add: ex_nodes(1))
  have n2: "nodes_csv ex_cfg_min_above_max = ''nodes.csv''"
    "nodes_csv ex_cfg_min_above_max_raised = ''nodes.csv''"
    by (simp_all add: ex_cfg_min_above_max_raised_def ex_cfg_min_above_max_def ex_cfg_def)
  have l2: "load_nodes ex_env ex_cfg_min_above_max ''dem.tif'' = Inr ex_loaded_min_above_max"
    unfolding ex_loaded_min_above_max_def using n2(1) by (rule ex_load_gen(1))
  have l2': "load_nodes ex_env ex_cfg_min_above_max_raised ''dem.tif'' = Inr ex_loaded_min_above_max_raised"
    unfolding ex_loaded_min_above_max_raised_def using n2(2) by (rule ex_load_gen(1))
  have c2: "getd (local_radius_m (hs ex_cfg_min_above_max)) 300 \<le> 400"
    "getd (clearance_margin_m (hs ex_cfg_min_above_max)) 2 \<le> 3"
    "getd (fresnel_clearance_ratio (hs ex_cfg_min_above_max)) (6 / 10) \<le> 1"
    by (simp_all add: ex_cfg_min_above_max_def ex_cfg_def getd_def)
  have d2: "getd (min_height_m (hs ex_cfg_min_above_max)) 4 = 200"
    "getd (max_height_m (hs ex_cfg_min_above_max)) 120 = 120"
    by (simp_all add: ex_cfg_min_above_max_def ex_cfg_def getd_def)
  have lt: "getd (max_height_m (hs ex_cfg_min_above_max)) 120 < getd (min_height_m (hs ex_cfg_min_above_max)) 4"
    by (simp add: d2)
  note t2 = used_height_range_and_monotone[OF l2 l2'[unfolded ex_cfg_min_above_max_raised_def] c2]
  have "hd (lr_nodes ex_loaded_min_above_max) \<in> set (lr_nodes ex_loaded_min_above_max)"
    by (simp add: ex_nodes_min_above_max)
  with t2 lt have h2: "height_m (hd (lr_nodes ex_loaded_min_above_max)) = 120"
    unfolding d2 by blast
  from r ex_load l' c d m l2 l2' lt h2 show ?thesis by simp
qed

text \<open>
  Claim C4 as stated fails for a configuration whose minimum exceeds its maximum: line 219
  applies the maximum last, so the final height is the maximum, below the minimum.
\<close>

theorem used_height_below_min:
  "load_nodes ex_env ex_cfg_min_above_max ''dem.tif'' = Inr ex_loaded_min_above_max \<and>
   getd (min_height_m (hs ex_cfg_min_above_max)) 4 = 200 \<and>
   length (lr_nodes ex_loaded_min_above_max) = 1 \<and>
   height_m (lr_nodes ex_loaded_min_above_max ! 0) = 120 \<and>
   \<not> getd (min_height_m (hs ex_cfg_min_above_max)) 4 \<le> height_m (lr_nodes ex_loaded_min_above_max ! 0)"
proof -
  have n: "nodes_csv ex_cfg_min_above_max = ''nodes.csv''"
    by (simp add: ex_cfg_min_above_max_def ex_cfg_def)
  have l: "load_nodes ex_env ex_cfg_min_above_max ''dem.tif'' = Inr ex_loaded_min_above_max"
    unfolding ex_loaded_min_above_max_def using n by (rule ex_load_gen(1))
  have c: "getd (min_height_m (hs ex_cfg_min_above_max)) 4 = 200"
    by (simp add: ex_cfg_min_above_max_def getd_def)
  show ?thesis
    using l by (simp add: c ex_nodes_min_above_max ex_resolve_min_above_max)
qed

subsection \<open>Order of the validated nodes\<close>

lemma validate_member:
  assumes "x \<in> set (fst (validate v t))"
  shows "dropna_row (fst x, normalise (rows t ! fst x)) = Some x"
proof -
  from list_emb_set[OF validate_subseq assms]
  have "x \<in> set (candidates t)" by blast
  then show ?thesis by (rule candidates_member[THEN conjunct2])
qed

lemma validate_indices: "subseq (map fst (fst (validate v t))) [0..<length (rows t)]"
proof -
  have "subseq (map fst (fst (validate v t))) (map fst (candidates t))"
    using validate_subseq by (rule subseq_map)
  then show ?thesis using candidates_indices by (rule subseq_order.order_trans)
qed

lemma validate_first_occurrence:
  assumes "getd (dedupe_by_id v) True"
  shows "x \<in> set (fst (validate v t)) \<longleftrightarrow>
           x \<in> set (fst (validate (v\<lparr>dedupe_by_id := Some False\<rparr>) t)) \<and>
           (\<forall>y \<in> set (fst (validate (v\<lparr>dedupe_by_id := Some False\<rparr>) t)).
               v_id (snd y) = v_id (snd x) \<longrightarrow> fst x \<le> fst y)"
proof -
  have "sorted_wrt (\<lambda>a b. fst a < fst b) (fst (validate (v\<lparr>dedupe_by_id := Some False\<rparr>) t))"
    using validate_subseq candidates_sorted by (rule subseq_sorted_indices)
  from drop_duplicates_from_set[OF this, of x "[]"] show ?thesis
    unfolding validate_dedupe[OF assms] drop_duplicates_def by simp
qed

lemma ex_validate_stats:
  "snd (validate (validation ex_cfg) ex_table) =
     \<lparr>rows_input = 3, rows_dropped_nan = 0, rows_dropped_empty_id = 0,
      rows_dropped_invalid_range = 0, rows_dropped_zero_coords = 1,
      rows_dropped_duplicate_id = 1, rows_valid = 1\<rparr>"
  by (simp add: validate_def ex_cfg_def ex_table_def ex_row_def frame_of_def normalise_def
      strip_def is_space_def List.map_filter_def invalid_coord_def zero_coord_def getd_def
      drop_duplicates_def Let_def isna_any_def)

lemma ex_validate_keep_zero_stats:
  "snd (validate (validation ex_cfg_keep_zero) ex_table) =
     \<lparr>rows_input = 3, rows_dropped_nan = 0, rows_dropped_empty_id = 0,
      rows_dropped_invalid_range = 0, rows_dropped_zero_coords = 1,
      rows_dropped_duplicate_id = 1, rows_valid = 2\<rparr>"
  by (simp add: validate_def ex_cfg_keep_zero_def ex_cfg_def ex_table_def ex_row_def frame_of_def
      normalise_def strip_def is_space_def List.map_filter_def invalid_coord_def zero_coord_def
      getd_def drop_duplicates_def Let_def isna_any_def)

lemma ex_validate_no_dedupe:
  "fst (validate ((validation ex_cfg)\<lparr>dedupe_by_id := Some False\<rparr>) ex_table) =
     [(0, ex_vrow), (2, ex_vrow)]"
  by (simp add: validate_def ex_cfg_def ex_table_def ex_row_def frame_of_def
      normalise_def strip_def is_space_def List.map_filter_def invalid_coord_def zero_coord_def
      getd_def Let_def ex_vrow_def)

lemma ex_rejected_rows:
  "rejected_rows ex_table (fst (validate (validation ex_cfg) ex_table)) =
     [(1, \<lparr>row_id = ''B'', row_name = None, row_lat = Some 0, row_lon = Some 0,
            row_extra = (\<lambda>c. if c = ''height_m'' then Some 5 else None)\<rparr>)]"
  unfolding ex_validate
  by (simp add: rejected_rows_def ex_table_def ex_row_def frame_of_def normalise_def
      strip_def is_space_def Let_def)

text \<open>
  Claim C6. The validated rows are rows of the input table in their original order (their
  indices form a subsequence of the indices of the table, and each validated row is the
  normalised row at its index); with deduplication enabled the identifiers are distinct and
  a row that passed the other filters is kept exactly when no earlier such row has its
  identifier. The table \<^verbatim>\<open>[("A",50.0,14.0,10), ("B",0,0,5), ("A",50.0,14.0,10)]\<close>
  under the default toggles validates to the first row alone, with
  \<^verbatim>\<open>rows_dropped_zero_coords = 1\<close> and \<^verbatim>\<open>rows_dropped_duplicate_id = 1\<close>.
\<close>

theorem validated_order_and_first_occurrence:
  "subseq (map fst (fst (validate v t))) [0..<length (rows t)] \<and>
   (\<forall>x \<in> set (fst (validate v t)). dropna_row (fst x, normalise (rows t ! fst x)) = Some x) \<and>
   (getd (dedupe_by_id v) True \<longrightarrow>
      distinct (map (\<lambda>x. v_id (snd x)) (fst (validate v t))) \<and>
      (\<forall>x \<in> set (fst (validate (v\<lparr>dedupe_by_id := Some False\<rparr>) t)).
          x \<in> set (fst (validate v t)) \<longleftrightarrow>
          (\<forall>y \<in> set (fst (validate (v\<lparr>dedupe_by_id := Some False\<rparr>) t)).
              v_id (snd y) = v_id (snd x) \<longrightarrow> fst x \<le> fst y))) \<and>
   fst (validate (validation ex_cfg) ex_table) = [(0, ex_vrow)] \<and>
   rows_dropped_zero_coords (snd (validate (validation ex_cfg) ex_table)) = 1 \<and>
   rows_dropped_duplicate_id (snd (validate (validation ex_cfg) ex_table)) = 1"
proof (intro conjI)
  show "subseq (map fst (fst (validate v t))) [0..<length (rows t)]"
    by (rule validate_indices)
  show "\<forall>x \<in> set (fst (validate v t)). dropna_row (fst x, normalise (rows t ! fst x)) = Some x"
    using validate_member by blast
  show "getd (dedupe_by_id v) True \<longrightarrow>
      distinct (map (\<lambda>x. v_id (snd x)) (fst (validate v t))) \<and>
      (\<forall>x \<in> set (fst (validate (v\<lparr>dedupe_by_id := Some False\<rparr>) t)).
          x \<in> set (fst (validate v t)) \<longleftrightarrow>
          (\<forall>y \<in> set (fst (validate (v\<lparr>dedupe_by_id := Some False\<rparr>) t)).
              v_id (snd y) = v_id (snd x) \<longrightarrow> fst x \<le> fst y))"
  proof (intro impI conjI ballI)
    assume d: "getd (dedupe_by_id v) True"
    show "distinct (map (\<lambda>x. v_id (snd x)) (fst (validate v t)))"
      unfolding validate_dedupe[OF d] drop_duplicates_def by (rule drop_duplicates_from_distinct)
    fix x assume "x \<in> set (fst (validate (v\<lparr>dedupe_by_id := Some False\<rparr>) t))"
    then show "x \<in> set (fst (validate v t)) \<longleftrightarrow>
          (\<forall>y \<in> set (fst (validate (v\<lparr>dedupe_by_id := Some False\<rparr>) t)).
              v_id (snd y) = v_id (snd x) \<longrightarrow> fst x \<le> fst y)"
      using validate_first_occurrence[OF d, of x t] by blast
  qed
  show "fst (validate (validation ex_cfg) ex_table) = [(0, ex_vrow)]"
    unfolding ex_vrow_def by (rule ex_validate)
  show "rows_dropped_zero_coords (snd (validate (validation ex_cfg) ex_table)) = 1"
    unfolding ex_validate_stats by simp
  show "rows_dropped_duplicate_id (snd (validate (validation ex_cfg) ex_table)) = 1"
    unfolding ex_validate_stats by simp
qed

theorem validated_order_and_first_occurrence_witness:
  "getd (dedupe_by_id (validation ex_cfg)) True \<and>
   (0, ex_vrow) \<in> set (fst (validate ((validation ex_cfg)\<lparr>dedupe_by_id := Some False\<rparr>) ex_table)) \<and>
   (2, ex_vrow) \<in> set (fst (validate ((validation ex_cfg)\<lparr>dedupe_by_id := Some False\<rparr>) ex_table)) \<and>
   (0, ex_vrow) \<in> set (fst (validate (validation ex_cfg) ex_table)) \<and>
   (2, ex_vrow) \<notin> set (fst (validate (validation ex_cfg) ex_table)) \<and>
   dropna_row (0, normalise (rows ex_table ! 0)) = Some (0, ex_vrow)"
proof -
  have g: "getd (dedupe_by_id (validation ex_cfg)) True" by (simp add: ex_cfg_def getd_def)
  have m: "(0, ex_vrow) \<in> set (fst (validate ((validation ex_cfg)\<lparr>dedupe_by_id := Some False\<rparr>) ex_table))"
    "(2, ex_vrow) \<in> set (fst (validate ((validation ex_cfg)\<lparr>dedupe_by_id := Some False\<rparr>) ex_table))"
    unfolding ex_validate_no_dedupe by simp_all
  note t = validated_order_and_first_occurrence[of "validation ex_cfg" ex_table]
  from t have v: "fst (validate (validation ex_cfg) ex_table) = [(0, ex_vrow)]" by blast
  then have i: "(0, ex_vrow) \<in> set (fst (validate (validation ex_cfg) ex_table))" by simp
  from t i have d: "dropna_row (fst (0::nat, ex_vrow), normalise (rows ex_table ! fst (0::nat, ex_vrow)))
                  = Some (0, ex_vrow)"
    by blast
  from t g m(2) have "(2, ex_vrow) \<in> set (fst (validate (validation ex_cfg) ex_table)) \<longleftrightarrow>
          (\<forall>y \<in> set (fst (validate ((validation ex_cfg)\<lparr>dedupe_by_id := Some False\<rparr>) ex_table)).
              v_id (snd y) = v_id (snd (2::nat, ex_vrow)) \<longrightarrow> fst (2::nat, ex_vrow) \<le> fst y)"
    by blast
  then have n: "(2, ex_vrow) \<notin> set (fst (validate (validation ex_cfg) ex_table))"
    using m(1) by fastforce
  from d have d': "dropna_row (0, normalise (rows ex_table ! 0)) = Some (0, ex_vrow)"
    by (simp only: fst_conv)
  from g m i n d' show ?thesis by blast
qed

subsection \<open>The dropped-row counters\<close>

text \<open>
  Claim C3 at the scenario table with \<^verbatim>\<open>drop_zero_coords: false\<close>: the row at (0,0)
  stays in the validated frame and is still counted in \<^verbatim>\<open>rows_dropped_zero_coords\<close>
  (line 134 counts the mask before the toggle of line 135 is read), so the validated rows
  and the dropped counts add up to 4 for 3 input rows. The counter of duplicates
  (line 141) is the difference of two lengths and is right under its toggle; with both
  range and zero toggles on the counts add up (lemma \<open>validate_counts\<close>).
\<close>

theorem dropped_counts_exceed_input:
  "rows_input (snd (validate (validation ex_cfg_keep_zero) ex_table)) = 3 \<and>
   rows_valid (snd (validate (validation ex_cfg_keep_zero) ex_table)) = 2 \<and>
   rows_dropped_zero_coords (snd (validate (validation ex_cfg_keep_zero) ex_table)) = 1 \<and>
   rows_dropped_duplicate_id (snd (validate (validation ex_cfg_keep_zero) ex_table)) = 1 \<and>
   rows_valid (snd (validate (validation ex_cfg_keep_zero) ex_table))
     + (rows_dropped_nan (snd (validate (validation ex_cfg_keep_zero) ex_table))
        + rows_dropped_empty_id (snd (validate (validation ex_cfg_keep_zero) ex_table))
        + rows_dropped_invalid_range (snd (validate (validation ex_cfg_keep_zero) ex_table))
        + rows_dropped_zero_coords (snd (validate (validation ex_cfg_keep_zero) ex_table))
        + rows_dropped_duplicate_id (snd (validate (validation ex_cfg_keep_zero) ex_table))) = 4"
  unfolding ex_validate_keep_zero_stats by simp

subsection \<open>The rejected-records file\<close>

text \<open>
  Claim C2 at the scenario table: the third row is dropped as a duplicate (only row 0 is
  validated, and \<^verbatim>\<open>rows_dropped_duplicate_id\<close> is 1), but the rejected-records file
  holds row 1 alone: line 158 keeps the rows whose identifier is not among the validated
  identifiers, and a dropped duplicate shares its identifier with the row that was kept.
\<close>

theorem duplicate_row_not_in_rejected_output:
  "load_nodes ex_env ex_cfg ''dem.tif'' = Inr ex_loaded \<and>
   length (rows ex_table) = 3 \<and>
   map fst (fst (validate (validation ex_cfg) ex_table)) = [0] \<and>
   rows_dropped_duplicate_id (lr_stats ex_loaded) = 1 \<and>
   lr_rejected ex_loaded =
     Some (''rejected.csv'',
           [(1, \<lparr>row_id = ''B'', row_name = None, row_lat = Some 0, row_lon = Some 0,
                  row_extra = (\<lambda>c. if c = ''height_m'' then Some 5 else None)\<rparr>)])"
proof -
  have n: "nodes_csv ex_cfg = ''nodes.csv''" by (simp add: ex_cfg_def)
  have r: "nodes_rejected_csv ex_cfg = Some ''rejected.csv''" by (simp add: ex_cfg_def)
  have "rows_dropped_duplicate_id (row_stats.truncate (lr_stats ex_loaded)) = 1"
    unfolding ex_loaded_def ex_load_gen(4)[OF n] ex_validate_stats by simp
  then have s: "rows_dropped_duplicate_id (lr_stats ex_loaded) = 1"
    by (simp add: row_stats.truncate_def)
  have j: "lr_rejected ex_loaded =
     Some (''rejected.csv'',
           [(1, \<lparr>row_id = ''B'', row_name = None, row_lat = Some 0, row_lon = Some 0,
                  row_extra = (\<lambda>c. if c = ''height_m'' then Some 5 else None)\<rparr>)])"
    unfolding ex_loaded_def ex_load_gen(5)[OF n] r ex_rejected_rows by simp
  have l: "length (rows ex_table) = 3" by (simp add: ex_table_def)
  have v: "map fst (fst (validate (validation ex_cfg) ex_table)) = [0]"
    unfolding ex_validate by simp
  from ex_load l v s j show ?thesis by blast
qed

subsection \<open>Merging the visibility rasters\<close>
















end
